theory Spec2Isabelle
  imports Complex_Main "HOL-Library.Sublist"
begin

section \<open>Python values\<close>

text \<open>
  The intent, the retrieval hits and the product records are plain Python dictionaries
  built from JSON. A value is \<open>None\<close>, a boolean, an integer, a float, a string, a list or
  a dictionary with string keys. A dictionary is an association list in insertion order;
  a lookup returns the first entry of a key, and storing under an existing key keeps
  the key's position, as a Python \<open>dict\<close> does.

  A float held in a dictionary is modelled by the real number it denotes,
  and a \<open>str\<close> by the bytes of its UTF-8 encoding, one \<open>char\<close> per byte.
\<close>

datatype pyval =
    PNone
  | PBool bool
  | PInt int
  | PFloat real
  | PStr string
  | PList "pyval list"
  | PDict "(string \<times> pyval) list"

type_synonym dict = "(string \<times> pyval) list"

datatype py_error =
    AttributeError
  | TypeError
  | ValueError
  | OverflowError
  | External nat

text \<open>Truth value of an object, as \<open>if x:\<close> and \<open>not x\<close> test it.\<close>

fun truthy :: "pyval \<Rightarrow> bool" where
  "truthy PNone = False"
| "truthy (PBool b) = b"
| "truthy (PInt n) = (n \<noteq> 0)"
| "truthy (PFloat r) = (r \<noteq> 0)"
| "truthy (PStr s) = (s \<noteq> [])"
| "truthy (PList xs) = (xs \<noteq> [])"
| "truthy (PDict d) = (d \<noteq> [])"

text \<open>\<open>d.get(k, default)\<close> and \<open>d.get(k)\<close>.\<close>

definition py_get :: "dict \<Rightarrow> string \<Rightarrow> pyval \<Rightarrow> pyval" where
  "py_get d k dflt = (case map_of d k of None \<Rightarrow> dflt | Some v \<Rightarrow> v)"

definition get_none :: "dict \<Rightarrow> string \<Rightarrow> pyval" where
  "get_none d k = py_get d k PNone"

text \<open>\<open>d[k] = v\<close>.\<close>

fun dict_set :: "'k \<Rightarrow> 'v \<Rightarrow> ('k \<times> 'v) list \<Rightarrow> ('k \<times> 'v) list" where
  "dict_set k v [] = [(k, v)]"
| "dict_set k v (p # ps) = (if fst p = k then (k, v) # ps else p # dict_set k v ps)"

section \<open>Filter builder (\<open>PineconeSearchService._build_filter\<close>)\<close>

text \<open>
  The filter maps a field name to a constraint, itself a dictionary from an operator
  (\<open>$eq\<close>, \<open>$gte\<close>, \<open>$lte\<close>) to a value. \<open>intent_data.get\<close> and \<open>attributes.get\<close> raise
  \<open>AttributeError\<close> on anything that is not a dictionary.
\<close>

type_synonym filter_dict = "(string \<times> dict) list"

definition eq_filter :: "string \<Rightarrow> pyval \<Rightarrow> filter_dict \<Rightarrow> filter_dict" where
  "eq_filter field v fd = (if truthy v then dict_set field [(''$eq'', v)] fd else fd)"

definition price_filter :: "dict \<Rightarrow> filter_dict \<Rightarrow> filter_dict" where
  "price_filter price_range fd =
     (let fd1 = (if truthy (get_none price_range ''min'')
                 then dict_set ''price'' [(''$gte'', get_none price_range ''min'')] fd
                 else fd)
      in if truthy (get_none price_range ''max'')
         then (case map_of fd1 ''price'' of
                 Some c \<Rightarrow>
                   dict_set ''price'' (dict_set ''$lte'' (get_none price_range ''max'') c) fd1
               | None \<Rightarrow>
                   dict_set ''price'' [(''$lte'', get_none price_range ''max'')] fd1)
         else fd1)"

definition build_filter :: "pyval \<Rightarrow> py_error + filter_dict" where
  "build_filter intent_data =
     (case intent_data of
        PDict d \<Rightarrow>
          (let category = get_none d ''category'';
               subcategory = get_none d ''subcategory'';
               attributes = py_get d ''attributes'' (PDict [])
           in case attributes of
                PDict a \<Rightarrow>
                  (let fd = eq_filter ''pattern'' (get_none a ''pattern'')
                             (eq_filter ''technique'' (get_none a ''technique'')
                               (eq_filter ''fabric'' (get_none a ''fabric'')
                                 (eq_filter ''color'' (get_none a ''color'')
                                   (eq_filter ''subcategory'' subcategory
                                     (eq_filter ''category'' category [])))));
                       price_range = get_none a ''price_range''
                   in Inr (if truthy price_range
                           then (case price_range of
                                   PDict pr \<Rightarrow> price_filter pr fd
                                 | _ \<Rightarrow> fd)
                           else fd))
              | _ \<Rightarrow> Inl AttributeError)
      | _ \<Rightarrow> Inl AttributeError)"

section \<open>Strings and numbers\<close>

text \<open>
  \<open>str.strip()\<close> removes the white-space code points at both ends: U+0009 to U+000D,
  U+001C to U+0020, U+0085, U+00A0, U+1680, U+2000 to U+200A, U+2028, U+2029, U+202F,
  U+205F and U+3000, recognised here in their UTF-8 encodings of one, two or three bytes.
\<close>

definition byte :: "char \<Rightarrow> nat" where
  "byte c = of_char c"

definition ws1 :: "char \<Rightarrow> bool" where
  "ws1 c = ((9 \<le> byte c \<and> byte c \<le> 13) \<or> (28 \<le> byte c \<and> byte c \<le> 32))"

definition ws2 :: "char \<Rightarrow> char \<Rightarrow> bool" where
  "ws2 c d = (byte c = 0xC2 \<and> (byte d = 0x85 \<or> byte d = 0xA0))"

definition ws3 :: "char \<Rightarrow> char \<Rightarrow> char \<Rightarrow> bool" where
  "ws3 c d e =
     ((byte c = 0xE1 \<and> byte d = 0x9A \<and> byte e = 0x80) \<or>
      (byte c = 0xE2 \<and> byte d = 0x80 \<and>
         ((0x80 \<le> byte e \<and> byte e \<le> 0x8A) \<or> byte e = 0xA8 \<or> byte e = 0xA9 \<or> byte e = 0xAF)) \<or>
      (byte c = 0xE2 \<and> byte d = 0x81 \<and> byte e = 0x9F) \<or>
      (byte c = 0xE3 \<and> byte d = 0x80 \<and> byte e = 0x80))"

text \<open>
  Dropping leading white space; the two- and three-byte tests are parameters so that the
  same function serves the reversed string.
\<close>

fun drop_ws :: "(char \<Rightarrow> char \<Rightarrow> bool) \<Rightarrow> (char \<Rightarrow> char \<Rightarrow> char \<Rightarrow> bool) \<Rightarrow> string \<Rightarrow> string" where
  "drop_ws p2 p3 [] = []"
| "drop_ws p2 p3 [c] = (if ws1 c then [] else [c])"
| "drop_ws p2 p3 [c, d] =
     (if ws1 c then drop_ws p2 p3 [d] else if p2 c d then [] else [c, d])"
| "drop_ws p2 p3 (c # d # e # es) =
     (if ws1 c then drop_ws p2 p3 (d # e # es)
      else if p2 c d then drop_ws p2 p3 (e # es)
      else if p3 c d e then drop_ws p2 p3 es
      else c # d # e # es)"

definition lstrip :: "string \<Rightarrow> string" where
  "lstrip s = drop_ws ws2 ws3 s"

definition rstrip :: "string \<Rightarrow> string" where
  "rstrip s = rev (drop_ws (\<lambda>c d. ws2 d c) (\<lambda>c d e. ws3 e d c) (rev s))"

definition py_strip :: "string \<Rightarrow> string" where
  "py_strip s = rstrip (lstrip s)"

text \<open>\<open>sep.join(xs)\<close>.\<close>

fun py_join :: "string \<Rightarrow> string list \<Rightarrow> string" where
  "py_join sep [] = []"
| "py_join sep [x] = x"
| "py_join sep (x # y # ys) = x @ sep @ py_join sep (y # ys)"

text \<open>Decimal digits of an integer, as \<open>str(n)\<close> prints them.\<close>

definition digit_char :: "nat \<Rightarrow> char" where
  "digit_char n = ''0123456789'' ! (n mod 10)"

function dec_nat :: "nat \<Rightarrow> string" where
  "dec_nat n = (if n < 10 then [digit_char n] else dec_nat (n div 10) @ [digit_char n])"
  by pat_completeness auto
termination
  by (relation "measure id") auto

declare dec_nat.simps [simp del]

definition dec_int :: "int \<Rightarrow> string" where
  "dec_int i = (if i < 0 then ''-'' @ dec_nat (nat (- i)) else dec_nat (nat i))"

text \<open>
  \<open>str(x)\<close>, which is also what an f-string inserts. The text of a float, a list or a
  dictionary is left to the parameter \<open>repr_other\<close>.
\<close>

fun py_str :: "(pyval \<Rightarrow> string) \<Rightarrow> pyval \<Rightarrow> string" where
  "py_str repr_other (PStr s) = s"
| "py_str repr_other PNone = ''None''"
| "py_str repr_other (PBool b) = (if b then ''True'' else ''False'')"
| "py_str repr_other (PInt n) = dec_int n"
| "py_str repr_other v = repr_other v"

text \<open>Rounding to the nearest integer, ties to the even one.\<close>

definition round_half_even :: "real \<Rightarrow> int" where
  "round_half_even x =
     (let f = \<lfloor>x\<rfloor>; d = x - of_int f
      in if d < 1 / 2 then f
         else if 1 / 2 < d then f + 1
         else if even f then f else f + 1)"

text \<open>\<open>round(x, 4)\<close>: an \<open>int\<close> (and a \<open>bool\<close>) comes back as an \<open>int\<close>.\<close>

definition py_round4 :: "pyval \<Rightarrow> py_error + pyval" where
  "py_round4 v =
     (case v of
        PInt n \<Rightarrow> Inr (PInt n)
      | PBool b \<Rightarrow> Inr (PInt (if b then 1 else 0))
      | PFloat r \<Rightarrow> Inr (PFloat (of_int (round_half_even (r * 10000)) / 10000))
      | _ \<Rightarrow> Inl TypeError)"

text \<open>
  The value of \<open>float(x)\<close>: a finite number, or one of the values that only the text of a
  number can denote here (negative zero, the infinities, not-a-number).
\<close>

datatype pyfloat = Finite real | NegZero | PosInf | NegInf | NaN

text \<open>
  \<open>float(n)\<close> of an \<open>int\<close> is the nearest double: \<open>n\<close> rounded to 53 significant bits, ties
  to the even one. It raises \<open>OverflowError\<close> when that is beyond the largest double,
  which is from \<open>2^1024 - 2^970\<close> on.
\<close>

function bit_length :: "nat \<Rightarrow> nat" where
  "bit_length n = (if n = 0 then 0 else Suc (bit_length (n div 2)))"
  by pat_completeness auto
termination
  by (relation "measure id") auto

declare bit_length.simps [simp del]

definition round_to_double :: "int \<Rightarrow> int" where
  "round_to_double n =
     (let m = nat \<bar>n\<bar>;
          e = bit_length m - 53;
          q = m div 2 ^ e;
          r = m mod 2 ^ e;
          q' = (if 2 ^ e < 2 * r \<or> (2 * r = 2 ^ e \<and> odd q) then q + 1 else q)
      in sgn n * int (q' * 2 ^ e))"

definition int_overflows :: "int \<Rightarrow> bool" where
  "int_overflows n = (2 ^ 1024 - 2 ^ 970 \<le> \<bar>n\<bar>)"

text \<open>
  \<open>float(x)\<close>. What a string denotes is given by the parameter \<open>str_to_float\<close>, \<open>None\<close>
  where Python raises \<open>ValueError\<close>.
\<close>

definition py_float :: "(string \<Rightarrow> pyfloat option) \<Rightarrow> pyval \<Rightarrow> py_error + pyfloat" where
  "py_float str_to_float v =
     (case v of
        PInt n \<Rightarrow> (if int_overflows n then Inl OverflowError
                    else Inr (Finite (of_int (round_to_double n))))
      | PBool b \<Rightarrow> Inr (Finite (if b then 1 else 0))
      | PFloat r \<Rightarrow> Inr (Finite r)
      | PStr s \<Rightarrow> (case str_to_float s of None \<Rightarrow> Inl ValueError | Some x \<Rightarrow> Inr x)
      | _ \<Rightarrow> Inl TypeError)"

text \<open>The format \<open>{x:,.0f}\<close>: no decimals, groups of three digits separated by commas.\<close>

definition pad3 :: "nat \<Rightarrow> string" where
  "pad3 n = [digit_char (n div 100), digit_char (n div 10), digit_char n]"

function group3 :: "nat \<Rightarrow> string" where
  "group3 n = (if n < 1000 then dec_nat n else group3 (n div 1000) @ '','' @ pad3 (n mod 1000))"
  by pat_completeness auto
termination
  by (relation "measure id") auto

declare group3.simps [simp del]

definition format_f0 :: "pyfloat \<Rightarrow> string" where
  "format_f0 x =
     (case x of
        Finite r \<Rightarrow> (if r < 0 then ''-'' else []) @ group3 (nat \<bar>round_half_even r\<bar>)
      | NegZero \<Rightarrow> ''-0''
      | PosInf \<Rightarrow> ''inf''
      | NegInf \<Rightarrow> ''-inf''
      | NaN \<Rightarrow> ''nan'')"

text \<open>\<open>x < 0.6\<close> for the confidence: numbers compare, anything else raises \<open>TypeError\<close>.\<close>

definition py_less_float :: "pyval \<Rightarrow> real \<Rightarrow> py_error + bool" where
  "py_less_float v bound =
     (case v of
        PInt n \<Rightarrow> Inr (of_int n < bound)
      | PBool b \<Rightarrow> Inr ((if b then 1 else 0) < bound)
      | PFloat r \<Rightarrow> Inr (r < bound)
      | _ \<Rightarrow> Inl TypeError)"

text \<open>\<open>xs[k:]\<close>: a negative start counts from the end, and both are clipped to the list.\<close>

definition slice_from :: "int \<Rightarrow> 'a list \<Rightarrow> 'a list" where
  "slice_from k xs =
     (let n = int (length xs);
          start = (if k < 0 then max 0 (n + k) else min k n)
      in drop (nat start) xs)"

section \<open>Sessions (\<open>ConversationSession\<close>)\<close>

text \<open>
  \<open>datetime.now()\<close> is a reading of a counter that the service advances at every
  reading. A stored message carries its time stamp; an entry of the context window has
  the role and the content only.
\<close>

record message =
  msg_role :: string
  msg_content :: pyval
  msg_timestamp :: nat

record chat_message =
  chat_role :: string
  chat_content :: pyval

record session =
  sid :: string
  created_at :: nat
  last_updated :: nat
  messages :: "message list"
  session_context :: dict

definition new_session :: "string \<Rightarrow> nat \<Rightarrow> session" where
  "new_session session_id t =
     \<lparr>sid = session_id, created_at = t, last_updated = Suc t, messages = [], session_context = []\<rparr>"

definition add_message :: "string \<Rightarrow> pyval \<Rightarrow> nat \<Rightarrow> session \<Rightarrow> session" where
  "add_message role content t s =
     s\<lparr>messages := messages s @ [\<lparr>msg_role = role, msg_content = content, msg_timestamp = t\<rparr>],
       last_updated := Suc t\<rparr>"

definition get_context_window :: "session \<Rightarrow> int \<Rightarrow> chat_message list" where
  "get_context_window s max_messages =
     (let recent = (if int (length (messages s)) > max_messages
                    then slice_from (- max_messages) (messages s)
                    else messages s)
      in map (\<lambda>msg. \<lparr>chat_role = msg_role msg, chat_content = msg_content msg\<rparr>) recent)"

definition update_context :: "string \<Rightarrow> pyval \<Rightarrow> nat \<Rightarrow> session \<Rightarrow> session" where
  "update_context key val t s =
     s\<lparr>session_context := dict_set key val (session_context s), last_updated := t\<rparr>"

section \<open>Collaborators and service state\<close>

text \<open>
  The three calls of \<open>openai_client.chat.completions.create\<close> differ in their fixed system
  prompt and settings, which no property below depends on; a call is identified by its
  site and by the text it sends after the system prompt. Every contact with a
  collaborator is appended to the trace of the service.
\<close>

datatype llm_call =
    IntentCall "chat_message list"
  | ChatCall "chat_message list"
  | SearchCall string

datatype event =
    LLMEvent llm_call
  | PineconeInitEvent
  | IndexSearchEvent string int

text \<open>
  What \<open>index.search\<close> returns: nothing (\<open>None\<close>), or an object whose attribute \<open>result\<close>
  may be missing.
\<close>

datatype raw_response =
    RawNone
  | RawObject "pyval option"

text \<open>
  The world outside the service. Each collaborator answers from the trace so far and the
  request: \<open>llm\<close> returns the content of the first choice or raises, \<open>json_loads\<close> parses
  it (\<open>None\<close> is a decoding error), \<open>pinecone_init\<close> is the construction of the client
  and of the index handle (\<open>Some e\<close> when it raises), \<open>index_search\<close> the query of the
  index.
\<close>

record env =
  llm :: "event list \<Rightarrow> llm_call \<Rightarrow> py_error + string option"
  json_loads :: "string \<Rightarrow> pyval option"
  pinecone_init :: "event list \<Rightarrow> py_error option"
  index_search :: "event list \<Rightarrow> string \<Rightarrow> int \<Rightarrow> py_error + raw_response"
  str_to_float :: "string \<Rightarrow> pyfloat option"
  repr_other :: "pyval \<Rightarrow> string"

record bot_state =
  sessions :: "string \<rightharpoonup> session"
  initialized :: bool
  trace :: "event list"
  clock :: nat

definition log_event :: "event \<Rightarrow> bot_state \<Rightarrow> bot_state" where
  "log_event ev st = st\<lparr>trace := trace st @ [ev]\<rparr>"

definition put_session :: "session \<Rightarrow> bot_state \<Rightarrow> bot_state" where
  "put_session s st = st\<lparr>sessions := (sessions st)(sid s \<mapsto> s)\<rparr>"

definition call_llm :: "env \<Rightarrow> llm_call \<Rightarrow> bot_state \<Rightarrow> bot_state \<times> (py_error + string option)" where
  "call_llm world call st = (log_event (LLMEvent call) st, llm world (trace st) call)"

section \<open>Retrieval adapter (\<open>PineconeSearchService\<close>)\<close>

record match =
  match_id :: pyval
  score :: pyval
  metadata :: pyval

definition initialize :: "env \<Rightarrow> bot_state \<Rightarrow> bot_state \<times> py_error option" where
  "initialize world st =
     (if initialized st then (st, None)
      else (case pinecone_init world (trace st) of
              Some e \<Rightarrow> (log_event PineconeInitEvent st, Some e)
            | None \<Rightarrow> (log_event PineconeInitEvent (st\<lparr>initialized := True\<rparr>), None)))"

text \<open>One hit: \<open>hit.get\<close> raises \<open>AttributeError\<close> unless the hit is a dictionary.\<close>

definition convert_hit :: "pyval \<Rightarrow> py_error + match" where
  "convert_hit hit =
     (case hit of
        PDict h \<Rightarrow> Inr \<lparr>match_id = get_none h ''_id'',
                        score = py_get h ''_score'' (PInt 0),
                        metadata = py_get h ''fields'' (PDict [])\<rparr>
      | _ \<Rightarrow> Inl AttributeError)"

fun convert_hits :: "pyval list \<Rightarrow> py_error + match list" where
  "convert_hits [] = Inr []"
| "convert_hits (hit # hits) =
     (case convert_hit hit of
        Inl e \<Rightarrow> Inl e
      | Inr m \<Rightarrow> (case convert_hits hits of Inl e \<Rightarrow> Inl e | Inr ms \<Rightarrow> Inr (m # ms)))"

text \<open>
  \<open>for hit in hits\<close>: a list yields its elements, a dictionary its keys and a string its
  characters (none of which has \<open>get\<close>); anything else is not iterable.
\<close>

definition iterate_hits :: "pyval \<Rightarrow> py_error + match list" where
  "iterate_hits hits =
     (case hits of
        PList hs \<Rightarrow> convert_hits hs
      | PDict d \<Rightarrow> (if d = [] then Inr [] else Inl AttributeError)
      | PStr s \<Rightarrow> (if s = [] then Inr [] else Inl AttributeError)
      | _ \<Rightarrow> Inl TypeError)"

definition convert_results_to_matches :: "raw_response \<Rightarrow> py_error + match list" where
  "convert_results_to_matches results =
     (case results of
        RawNone \<Rightarrow> Inr []
      | RawObject None \<Rightarrow> Inr []
      | RawObject (Some r) \<Rightarrow>
          (if truthy r
           then (case r of
                   PDict d \<Rightarrow> iterate_hits (py_get d ''hits'' (PList []))
                 | _ \<Rightarrow> Inl AttributeError)
           else Inr []))"

text \<open>
  \<open>search\<close>: the lazy initialisation comes first, then the test of the query text, then
  the filter; only the query of the index and the conversion of its answer are inside
  the \<open>try\<close>. The filter is built but not sent (the line that would add it to the query
  is commented out in the source).
\<close>

definition search :: "env \<Rightarrow> pyval \<Rightarrow> pyval \<Rightarrow> int \<Rightarrow> bot_state \<Rightarrow> bot_state \<times> (py_error + match list)" where
  "search world query_text intent_data top_k st =
     (case initialize world st of
        (st1, Some e) \<Rightarrow> (st1, Inl e)
      | (st1, None) \<Rightarrow>
          (if \<not> truthy query_text then (st1, Inr [])
           else (case query_text of
                   PStr q \<Rightarrow>
                     (if py_strip q = [] then (st1, Inr [])
                      else (case (if truthy intent_data then build_filter intent_data else Inr []) of
                              Inl e \<Rightarrow> (st1, Inl e)
                            | Inr filter_dict \<Rightarrow>
                                (log_event (IndexSearchEvent q top_k) st1,
                                 (case index_search world (trace st1) q top_k of
                                    Inl e \<Rightarrow> Inr []
                                  | Inr results \<Rightarrow>
                                      (case convert_results_to_matches results of
                                         Inl e \<Rightarrow> Inr []
                                       | Inr converted_matches \<Rightarrow> Inr converted_matches)))))
                 | _ \<Rightarrow> (st1, Inl AttributeError))))"

section \<open>Product records (\<open>BotService._format_products\<close>)\<close>

text \<open>
  The currency prefix of the price, byte for byte as the literal stands in the source
  file.
\<close>

definition currency_sign :: string where
  "currency_sign = [CHR 0xC3, CHR 0xA2, CHR 0xE2, CHR 0x80, CHR 0x9A, CHR 0xC2, CHR 0xB9]"

text \<open>
  The handler around \<open>float\<close> catches \<open>ValueError\<close> and \<open>TypeError\<close> only: an
  \<open>OverflowError\<close> leaves \<open>_format_products\<close>.
\<close>

definition format_price :: "env \<Rightarrow> dict \<Rightarrow> py_error + string" where
  "format_price world md =
     (let price_value = py_get md ''price'' (PStr ''N/A'')
      in if price_value \<noteq> PStr ''N/A'' \<and> truthy price_value
         then (case py_float (str_to_float world) price_value of
                 Inr x \<Rightarrow> Inr (currency_sign @ format_f0 x)
               | Inl e \<Rightarrow>
                   (if e = ValueError \<or> e = TypeError
                    then Inr (py_str (repr_other world) price_value)
                    else Inl e))
         else Inr ''N/A'')"

text \<open>
  \<open>match.metadata.get\<close> raises \<open>AttributeError\<close> unless the metadata is a dictionary, and
  \<open>round\<close> raises \<open>TypeError\<close> unless the score is a number.
\<close>

definition format_product :: "env \<Rightarrow> match \<Rightarrow> py_error + dict" where
  "format_product world m =
     (case metadata m of
        PDict md \<Rightarrow>
          (case format_price world md of
             Inl e \<Rightarrow> Inl e
           | Inr price_formatted \<Rightarrow>
               (case py_round4 (score m) of
                  Inl e \<Rightarrow> Inl e
                | Inr rounded \<Rightarrow>
                    Inr [(''id'', match_id m),
                         (''product_id'', py_get md ''product_id'' (match_id m)),
                         (''name'', py_get md ''product_name'' (PStr ''Unknown'')),
                         (''price'', PStr price_formatted),
                         (''category'', py_get md ''category'' (PStr [])),
                         (''subcategory'', py_get md ''subcategory'' (PStr [])),
                         (''color'', py_get md ''color'' (PStr [])),
                         (''fabric'', py_get md ''fabric'' (PStr [])),
                         (''technique'', py_get md ''technique'' (PStr [])),
                         (''pattern'', py_get md ''pattern'' (PStr [])),
                         (''description'', py_get md ''description'' (PStr [])),
                         (''in_stock'', py_get md ''in_stock'' (PBool True)),
                         (''colors_available'', py_get md ''colors_available'' (PStr [])),
                         (''score'', rounded)]))
      | _ \<Rightarrow> Inl AttributeError)"

fun format_products :: "env \<Rightarrow> match list \<Rightarrow> py_error + dict list" where
  "format_products world [] = Inr []"
| "format_products world (m # ms) =
     (case format_product world m of
        Inl e \<Rightarrow> Inl e
      | Inr product \<Rightarrow>
          (case format_products world ms of
             Inl e \<Rightarrow> Inl e
           | Inr products \<Rightarrow> Inr (product # products)))"

section \<open>Search response (\<open>BotService._generate_search_response\<close>)\<close>

definition in_stock_status :: "dict \<Rightarrow> string" where
  "in_stock_status product =
     (if truthy (py_get product ''in_stock'' (PBool True)) then ''In Stock'' else ''Out of Stock'')"

definition product_summary :: "(pyval \<Rightarrow> string) \<Rightarrow> nat \<Rightarrow> dict \<Rightarrow> string" where
  "product_summary repr i product =
     ''\<newline>Product '' @ dec_nat (i + 1) @ '':'' @
     ''\<newline>- Name: '' @ py_str repr (py_get product ''name'' (PStr ''Unknown'')) @
     ''\<newline>- Category: '' @ py_str repr (py_get product ''category'' (PStr [])) @
        '' / '' @ py_str repr (py_get product ''subcategory'' (PStr [])) @
     ''\<newline>- Fabric: '' @ py_str repr (py_get product ''fabric'' (PStr [])) @
     ''\<newline>- Technique: '' @ py_str repr (py_get product ''technique'' (PStr [])) @
     ''\<newline>- Color: '' @ py_str repr (py_get product ''color'' (PStr [])) @
     ''\<newline>- Pattern: '' @ py_str repr (py_get product ''pattern'' (PStr [])) @
     ''\<newline>- Price: '' @ py_str repr (py_get product ''price'' (PStr ''N/A'')) @
     ''\<newline>- Stock: '' @ in_stock_status product @
     ''\<newline>- Description: '' @ py_str repr (py_get product ''description'' (PStr [])) @
     ''\<newline>''"

text \<open>The summaries of \<open>enumerate(products[:5])\<close>.\<close>

definition product_summaries :: "(pyval \<Rightarrow> string) \<Rightarrow> dict list \<Rightarrow> string list" where
  "product_summaries repr products =
     map (\<lambda>(i, product). product_summary repr i product) (List.enumerate 0 (take 5 products))"

definition search_terms :: "(pyval \<Rightarrow> string) \<Rightarrow> dict \<Rightarrow> string list" where
  "search_terms repr attributes =
     (if truthy (get_none attributes ''color'')
      then [''color: '' @ py_str repr (get_none attributes ''color'')] else []) @
     (if truthy (get_none attributes ''fabric'')
      then [''fabric: '' @ py_str repr (get_none attributes ''fabric'')] else []) @
     (if truthy (get_none attributes ''technique'')
      then [''technique: '' @ py_str repr (get_none attributes ''technique'')] else []) @
     (if truthy (get_none attributes ''price_max'')
      then [''under '' @ currency_sign @ py_str repr (get_none attributes ''price_max'')] else [])"

definition query_description :: "(pyval \<Rightarrow> string) \<Rightarrow> dict \<Rightarrow> dict \<Rightarrow> string" where
  "query_description repr intent attributes =
     (if search_terms repr attributes \<noteq> []
      then py_join '', '' (search_terms repr attributes)
      else py_str repr (py_get intent ''search_query'' (PStr ''your request'')))"

definition user_prompt :: "(pyval \<Rightarrow> string) \<Rightarrow> dict \<Rightarrow> dict \<Rightarrow> dict list \<Rightarrow> string" where
  "user_prompt repr intent attributes products =
     (if products = []
      then ''User searched for: '' @ query_description repr intent attributes @
           ''\<newline>No matching products were found in our database.'' @
           ''\<newline>\<newline>Generate a polite response explaining we don't have that exact item, and suggest they:'' @
           ''\<newline>1. Try different color/fabric options'' @
           ''\<newline>2. Browse similar categories'' @
           ''\<newline>Keep it brief and helpful.''
      else ''User searched for: '' @ query_description repr intent attributes @
           ''\<newline>Found '' @ dec_nat (length products) @ '' products from our Pinecone database.'' @
           ''\<newline>\<newline>RETRIEVED PRODUCTS FROM DATABASE:\<newline>'' @
           py_join ''\<newline>'' (product_summaries repr products) @
           ''\<newline>\<newline>Generate a warm response following the format rules. List 2-4 best matches (prioritize in-stock items).'' @
           ''\<newline>Use ONLY the exact data provided above. Do not invent details.'')"

definition search_fallback :: "(pyval \<Rightarrow> string) \<Rightarrow> dict \<Rightarrow> dict \<Rightarrow> dict list \<Rightarrow> string" where
  "search_fallback repr intent attributes products =
     (if products = []
      then ''I couldn't find any products matching '' @ query_description repr intent attributes @
           ''. Would you like to try a different color or style?''
      else ''I found '' @ dec_nat (length products) @
           '' items matching your search. Here are the results!'')"

definition content_value :: "string option \<Rightarrow> pyval" where
  "content_value c = (case c of None \<Rightarrow> PNone | Some text \<Rightarrow> PStr text)"

definition generate_search_response ::
  "env \<Rightarrow> dict \<Rightarrow> dict list \<Rightarrow> session \<Rightarrow> bot_state \<Rightarrow> bot_state \<times> (py_error + pyval)" where
  "generate_search_response world intent products session st =
     (case py_get intent ''attributes'' (PDict []) of
        PDict attributes \<Rightarrow>
          (case call_llm world
                  (SearchCall (user_prompt (repr_other world) intent attributes products)) st of
             (st1, Inr c) \<Rightarrow> (st1, Inr (content_value c))
           | (st1, Inl e) \<Rightarrow>
               (st1, Inr (PStr (search_fallback (repr_other world) intent attributes products))))
      | _ \<Rightarrow> (st, Inl AttributeError))"

section \<open>Orchestrator (\<open>BotService\<close>)\<close>

definition ACTION_SEARCH :: string where
  "ACTION_SEARCH = ''search''"

definition ACTION_CLARIFY :: string where
  "ACTION_CLARIFY = ''clarify''"

definition ACTION_CHAT :: string where
  "ACTION_CHAT = ''chat''"

text \<open>
  The reply of \<open>process_message\<close>: the keys \<open>intent\<close> and \<open>error\<close> are each present in some
  replies only. The description \<open>str(e)\<close> of a failure is represented by the failure.
\<close>

record response_data =
  rd_response :: pyval
  rd_products :: "dict list"
  rd_action :: string
  rd_intent :: "dict option"
  rd_error :: "py_error option"

text \<open>
  The session is an object shared with the store: what a method changes is seen through
  \<open>self.sessions\<close> at once, so every change is written back at once.
\<close>

definition get_or_create_session :: "string \<Rightarrow> bot_state \<Rightarrow> session \<times> bot_state" where
  "get_or_create_session session_id st =
     (case sessions st session_id of
        Some s \<Rightarrow> (s, st)
      | None \<Rightarrow>
          (let s = new_session session_id (clock st)
           in (s, put_session s (st\<lparr>clock := clock st + 2\<rparr>))))"

definition session_add_message ::
  "string \<Rightarrow> pyval \<Rightarrow> session \<Rightarrow> bot_state \<Rightarrow> session \<times> bot_state" where
  "session_add_message role content session st =
     (let s = add_message role content (clock st) session
      in (s, put_session s (st\<lparr>clock := clock st + 2\<rparr>)))"

definition session_update_context ::
  "string \<Rightarrow> pyval \<Rightarrow> session \<Rightarrow> bot_state \<Rightarrow> session \<times> bot_state" where
  "session_update_context key val session st =
     (let s = update_context key val (clock st) session
      in (s, put_session s (st\<lparr>clock := clock st + 1\<rparr>)))"

definition clear_session :: "string \<Rightarrow> bot_state \<Rightarrow> bot_state" where
  "clear_session session_id st = st\<lparr>sessions := (sessions st)(session_id := None)\<rparr>"

definition default_intent :: "string \<Rightarrow> dict" where
  "default_intent user_message =
     [(''intent_type'', PStr ''general_question''),
      (''search_query'', PStr user_message),
      (''confidence'', PFloat (1 / 2)),
      (''needs_clarification'', PBool False)]"

text \<open>
  \<open>_extract_intent\<close>: everything after the prompt is inside the \<open>try\<close>. The call may
  raise, the content may be \<open>None\<close> (then \<open>json.loads\<close> raises), the text may fail to
  parse, and \<open>intent.get\<close> raises on a JSON value that is not an object; each of these
  ends in the default intent.
\<close>

definition extract_intent ::
  "env \<Rightarrow> string \<Rightarrow> session \<Rightarrow> bot_state \<Rightarrow> session \<times> bot_state \<times> dict" where
  "extract_intent world user_message session st =
     (let context_messages = get_context_window session 5;
          msgs = context_messages @ [\<lparr>chat_role = ''user'', chat_content = PStr user_message\<rparr>]
      in case call_llm world (IntentCall msgs) st of
           (st1, Inl e) \<Rightarrow> (session, st1, default_intent user_message)
         | (st1, Inr None) \<Rightarrow> (session, st1, default_intent user_message)
         | (st1, Inr (Some intent_json)) \<Rightarrow>
             (case json_loads world intent_json of
                Some (PDict intent) \<Rightarrow>
                  (let (s1, st2) =
                         (if truthy (get_none intent ''attributes'')
                          then session_update_context ''last_attributes''
                                 (get_none intent ''attributes'') session st1
                          else (session, st1));
                       (s2, st3) =
                         (if truthy (get_none intent ''category'')
                          then session_update_context ''last_category''
                                 (get_none intent ''category'') s1 st2
                          else (s1, st2))
                   in (s2, st3, intent))
              | _ \<Rightarrow> (session, st1, default_intent user_message)))"

definition decide_action :: "dict \<Rightarrow> session \<Rightarrow> py_error + string" where
  "decide_action intent session =
     (let intent_type = py_get intent ''intent_type'' (PStr ''general_question'');
          needs_clarification = py_get intent ''needs_clarification'' (PBool False);
          confidence = py_get intent ''confidence'' (PFloat (1 / 2))
      in if intent_type = PStr ''off_topic'' then Inr ACTION_CHAT
         else if truthy needs_clarification then Inr ACTION_CLARIFY
         else (case py_less_float confidence (6 / 10) of
                 Inl e \<Rightarrow> Inl e
               | Inr low \<Rightarrow>
                   (if low then Inr ACTION_CLARIFY
                    else if intent_type = PStr ''product_search'' then Inr ACTION_SEARCH
                    else Inr ACTION_CHAT)))"

definition execute_search ::
  "env \<Rightarrow> dict \<Rightarrow> session \<Rightarrow> bot_state \<Rightarrow> bot_state \<times> (py_error + response_data)" where
  "execute_search world intent session st =
     (let search_query = py_get intent ''search_query'' (PStr []);
          intent_data = PDict [(''category'', get_none intent ''category''),
                               (''subcategory'', get_none intent ''subcategory''),
                               (''attributes'', py_get intent ''attributes'' (PDict []))]
      in case search world search_query intent_data 10 st of
           (st1, Inl e) \<Rightarrow> (st1, Inl e)
         | (st1, Inr matches) \<Rightarrow>
             (case format_products world matches of
                Inl e \<Rightarrow> (st1, Inl e)
              | Inr products \<Rightarrow>
                  (case generate_search_response world intent products session st1 of
                     (st2, Inl e) \<Rightarrow> (st2, Inl e)
                   | (st2, Inr response_message) \<Rightarrow>
                       (st2, Inr \<lparr>rd_response = response_message, rd_products = products,
                                  rd_action = ACTION_SEARCH, rd_intent = Some intent,
                                  rd_error = None\<rparr>))))"

definition generic_clarification :: string where
  "generic_clarification =
     ''I want to help you find the perfect item! Could you provide more details about what you're looking for? For example, the type of clothing, color, fabric, or occasion?''"

definition execute_clarify :: "dict \<Rightarrow> session \<Rightarrow> response_data" where
  "execute_clarify intent session =
     (let clarification = get_none intent ''clarification_question''
      in \<lparr>rd_response = (if \<not> truthy clarification then PStr generic_clarification
                          else clarification),
          rd_products = [], rd_action = ACTION_CLARIFY, rd_intent = Some intent,
          rd_error = None\<rparr>)"

definition boundary_message :: string where
  "boundary_message =
     ''I'm only able to help with Jhimki's product catalogue and availability. How can I help you find something from our collection today?''"

definition chat_fallback :: string where
  "chat_fallback =
     ''Welcome to Jhimki! '' @ [CHR 0xC3, CHR 0xB0, CHR 0xC5, CHR 0xB8, CHR 0xE2, CHR 0x84, CHR 0xA2] @
     '' We specialize in handcrafted sarees, suit sets, and fabrics. What can I help you find today?''"

definition execute_chat ::
  "env \<Rightarrow> dict \<Rightarrow> string \<Rightarrow> session \<Rightarrow> bot_state \<Rightarrow> bot_state \<times> response_data" where
  "execute_chat world intent user_message session st =
     (let context_messages = get_context_window session 5;
          msgs = context_messages @ [\<lparr>chat_role = ''user'', chat_content = PStr user_message\<rparr>];
          intent_type = py_get intent ''intent_type'' (PStr ''general_question'')
      in if intent_type = PStr ''off_topic''
         then (st, \<lparr>rd_response = PStr boundary_message, rd_products = [],
                    rd_action = ACTION_CHAT, rd_intent = Some intent, rd_error = None\<rparr>)
         else (case call_llm world (ChatCall msgs) st of
                 (st1, Inr chat_response) \<Rightarrow>
                   (st1, \<lparr>rd_response = content_value chat_response, rd_products = [],
                          rd_action = ACTION_CHAT, rd_intent = Some intent, rd_error = None\<rparr>)
               | (st1, Inl e) \<Rightarrow>
                   (st1, \<lparr>rd_response = PStr chat_fallback, rd_products = [],
                          rd_action = ACTION_CHAT, rd_intent = Some intent, rd_error = None\<rparr>)))"

definition execute_action ::
  "env \<Rightarrow> string \<Rightarrow> dict \<Rightarrow> string \<Rightarrow> session \<Rightarrow> bot_state
     \<Rightarrow> bot_state \<times> (py_error + response_data)" where
  "execute_action world action intent user_message session st =
     (if action = ACTION_SEARCH then execute_search world intent session st
      else if action = ACTION_CLARIFY then (st, Inr (execute_clarify intent session))
      else (case execute_chat world intent user_message session st of
              (st1, rd) \<Rightarrow> (st1, Inr rd)))"

definition apology :: string where
  "apology =
     ''I apologize, but I encountered an error processing your request. Please try again.''"

definition error_response :: "py_error \<Rightarrow> response_data" where
  "error_response e =
     \<lparr>rd_response = PStr apology, rd_products = [], rd_action = ''error'', rd_intent = None,
      rd_error = Some e\<rparr>"

text \<open>
  \<open>process_message\<close>: the whole body is one \<open>try\<close>; its handler returns the apology and
  does nothing else.
\<close>

definition process_message :: "env \<Rightarrow> string \<Rightarrow> string \<Rightarrow> bot_state \<Rightarrow> bot_state \<times> response_data" where
  "process_message world user_message session_id st =
     (let (session0, st0) = get_or_create_session session_id st;
          (session1, st1) = session_add_message ''user'' (PStr user_message) session0 st0;
          (session2, st2, intent) = extract_intent world user_message session1 st1
      in case decide_action intent session2 of
           Inl e \<Rightarrow> (st2, error_response e)
         | Inr action \<Rightarrow>
             (case execute_action world action intent user_message session2 st2 of
                (st3, Inl e) \<Rightarrow> (st3, error_response e)
              | (st3, Inr rd) \<Rightarrow>
                  (snd (session_add_message ''assistant'' (rd_response rd) session2 st3), rd)))"

text \<open>The history of a session as the store holds it.\<close>

definition history :: "bot_state \<Rightarrow> string \<Rightarrow> (string \<times> pyval) list" where
  "history st session_id =
     (case sessions st session_id of
        None \<Rightarrow> []
      | Some s \<Rightarrow> map (\<lambda>msg. (msg_role msg, msg_content msg)) (messages s))"

section \<open>Notions used in the statements\<close>

text \<open>The constraint a field receives from a value: equality when the value is truthy.\<close>

definition eq_constraint :: "pyval \<Rightarrow> dict option" where
  "eq_constraint v = (if truthy v then Some [(''$eq'', v)] else None)"

text \<open>
  The price constraint that \<open>attributes['price_range']\<close> gives: a dictionary contributes
  its truthy \<open>min\<close> as lower and its truthy \<open>max\<close> as upper bound, each on its own.
\<close>

definition range_constraint :: "pyval \<Rightarrow> dict option" where
  "range_constraint price_range =
     (case price_range of
        PDict r \<Rightarrow>
          (let lo = get_none r ''min''; hi = get_none r ''max''
           in if truthy lo \<and> truthy hi then Some [(''$gte'', lo), (''$lte'', hi)]
              else if truthy lo then Some [(''$gte'', lo)]
              else if truthy hi then Some [(''$lte'', hi)]
              else None)
      | _ \<Rightarrow> None)"

text \<open>The number a confidence denotes, when it is an \<open>int\<close> or a \<open>float\<close>.\<close>

definition number_value :: "pyval \<Rightarrow> real option" where
  "number_value v = (case v of PInt n \<Rightarrow> Some (of_int n) | PFloat r \<Rightarrow> Some r | _ \<Rightarrow> None)"

text \<open>The queries of the index in a trace.\<close>

definition is_index_search :: "event \<Rightarrow> bool" where
  "is_index_search ev = (case ev of IndexSearchEvent q k \<Rightarrow> True | _ \<Rightarrow> False)"

definition index_queries :: "event list \<Rightarrow> event list" where
  "index_queries tr = filter is_index_search tr"

text \<open>
  The messages sent to the classifier, and what it means that classification fails: the
  call raises, or its content is \<open>None\<close>, or the content does not parse to a JSON object.
\<close>

definition intent_messages :: "session \<Rightarrow> string \<Rightarrow> chat_message list" where
  "intent_messages session user_message =
     get_context_window session 5 @ [\<lparr>chat_role = ''user'', chat_content = PStr user_message\<rparr>]"

definition classification_fails :: "env \<Rightarrow> event list \<Rightarrow> chat_message list \<Rightarrow> bool" where
  "classification_fails world tr msgs =
     (case llm world tr (IntentCall msgs) of
        Inl e \<Rightarrow> True
      | Inr None \<Rightarrow> True
      | Inr (Some content) \<Rightarrow>
          (case json_loads world content of Some (PDict intent) \<Rightarrow> False | _ \<Rightarrow> True))"

text \<open>The keys of a product record, and the markers of an empty or unknown field.\<close>

definition documented_keys :: "string list" where
  "documented_keys =
     [''id'', ''product_id'', ''name'', ''price'', ''category'', ''subcategory'', ''color'',
      ''fabric'', ''technique'', ''pattern'', ''description'', ''in_stock'', ''colors_available'',
      ''score'']"

definition text_fields :: "string list" where
  "text_fields =
     [''category'', ''subcategory'', ''color'', ''fabric'', ''technique'', ''pattern'',
      ''description'', ''colors_available'']"

definition empty_marker :: "pyval \<Rightarrow> bool" where
  "empty_marker v = (v = PStr [] \<or> v = PStr ''Unknown'' \<or> v = PStr ''N/A'')"

text \<open>
  The messages a turn sends to the classifier: the recent view of the session once the
  user message has been appended, followed by the user message.
\<close>

definition turn_messages :: "string \<Rightarrow> string \<Rightarrow> bot_state \<Rightarrow> chat_message list" where
  "turn_messages user_message session_id st =
     (let (session0, st0) = get_or_create_session session_id st;
          (session1, st1) = session_add_message ''user'' (PStr user_message) session0 st0
      in intent_messages session1 user_message)"

text \<open>
  A match that \<open>_format_products\<close> can format: its metadata is a dictionary, its score is a
  number, and its price is not an \<open>int\<close> beyond the range of a double.
\<close>

definition is_number :: "pyval \<Rightarrow> bool" where
  "is_number v = (case v of PInt n \<Rightarrow> True | PBool b \<Rightarrow> True | PFloat r \<Rightarrow> True | _ \<Rightarrow> False)"

definition price_overflows :: "dict \<Rightarrow> bool" where
  "price_overflows md =
     (case py_get md ''price'' (PStr ''N/A'') of PInt n \<Rightarrow> int_overflows n | _ \<Rightarrow> False)"

definition formattable :: "match \<Rightarrow> bool" where
  "formattable m =
     (case metadata m of
        PDict md \<Rightarrow> is_number (score m) \<and> \<not> price_overflows md
      | _ \<Rightarrow> False)"

section \<open>Concrete services and inputs\<close>

text \<open>The service as \<open>BotService.__init__\<close> leaves it.\<close>

definition initial_state :: bot_state where
  "initial_state = \<lparr>sessions = Map.empty, initialized = False, trace = [], clock = 0\<rparr>"

text \<open>A world in which every collaborator raises.\<close>

definition stub_world :: env where
  "stub_world =
     \<lparr>llm = (\<lambda>tr call. Inl (External 0)),
      json_loads = (\<lambda>s. None),
      pinecone_init = (\<lambda>tr. Some (External 1)),
      index_search = (\<lambda>tr q k. Inl (External 2)),
      str_to_float = (\<lambda>s. None),
      repr_other = (\<lambda>v. [])\<rparr>"

text \<open>A world whose index client can be built, but whose index query raises.\<close>

definition index_down_world :: env where
  "index_down_world = stub_world\<lparr>pinecone_init := (\<lambda>tr. None)\<rparr>"

text \<open>A world whose index answers with hits that are not a sequence.\<close>

definition malformed_world :: env where
  "malformed_world =
     stub_world\<lparr>pinecone_init := (\<lambda>tr. None),
                index_search := (\<lambda>tr q k. Inr (RawObject (Some (PDict [(''hits'', PInt 3)]))))\<rparr>"

text \<open>A world whose classifier answers a greeting with a \<open>null\<close> confidence.\<close>

definition null_confidence_intent :: dict where
  "null_confidence_intent = [(''intent_type'', PStr ''greeting''), (''confidence'', PNone)]"

definition null_confidence_world :: env where
  "null_confidence_world =
     stub_world\<lparr>llm := (\<lambda>tr call. Inr (Some ''greeting, confidence null'')),
                json_loads := (\<lambda>s. Some (PDict null_confidence_intent))\<rparr>"

definition off_topic_intent :: dict where
  "off_topic_intent = [(''intent_type'', PStr ''off_topic''), (''confidence'', PFloat (95 / 100))]"

definition low_confidence_intent :: dict where
  "low_confidence_intent =
     [(''intent_type'', PStr ''product_search''), (''confidence'', PFloat (4 / 10))]"

definition sample_attributes :: dict where
  "sample_attributes =
     [(''color'', PStr ''indigo''), (''fabric'', PStr ''cotton''), (''price_max'', PInt 3000),
      (''price_range'', PDict [(''min'', PInt 2000), (''max'', PInt 3000)])]"

definition sample_intent_data :: dict where
  "sample_intent_data =
     [(''category'', PStr ''Saree''), (''subcategory'', PStr ''Ajrakh Saree''),
      (''attributes'', PDict sample_attributes)]"

definition sample_session :: session where
  "sample_session =
     \<lparr>sid = ''default'', created_at = 0, last_updated = 7,
      messages = [\<lparr>msg_role = ''user'', msg_content = PStr ''Hello'', msg_timestamp = 2\<rparr>,
                  \<lparr>msg_role = ''assistant'', msg_content = PStr ''Welcome'', msg_timestamp = 4\<rparr>,
                  \<lparr>msg_role = ''user'', msg_content = PStr ''Sarees?'', msg_timestamp = 6\<rparr>],
      session_context = []\<rparr>"

definition sample_metadata :: dict where
  "sample_metadata =
     [(''product_name'', PStr ''Indigo Ajrakh Cotton Saree''), (''price'', PInt 2850),
      (''category'', PStr ''Saree'')]"

definition sample_match :: match where
  "sample_match =
     \<lparr>match_id = PStr ''p1'', score = PFloat (87656 / 100000), metadata = PDict sample_metadata\<rparr>"

definition bare_match :: match where
  "bare_match = \<lparr>match_id = PStr ''p1'', score = PFloat (1 / 2), metadata = PDict []\<rparr>"

text \<open>A world whose classifier finds every message off-topic.\<close>

definition off_topic_world :: env where
  "off_topic_world =
     stub_world\<lparr>llm := (\<lambda>tr call. Inr (Some ''off topic, confidence 0.95'')),
                json_loads := (\<lambda>s. Some (PDict off_topic_intent))\<rparr>"

text \<open>
  The record of a hit without metadata, and the same record marked out of stock; a hit
  whose price is an \<open>int\<close> too large for a double.
\<close>

definition bare_product :: dict where
  "bare_product =
     [(''id'', PStr ''p1''), (''product_id'', PStr ''p1''), (''name'', PStr ''Unknown''),
      (''price'', PStr ''N/A''), (''category'', PStr []), (''subcategory'', PStr []),
      (''color'', PStr []), (''fabric'', PStr []), (''technique'', PStr []),
      (''pattern'', PStr []), (''description'', PStr []), (''in_stock'', PBool True),
      (''colors_available'', PStr []), (''score'', PFloat (1 / 2))]"

definition sold_out_product :: dict where
  "sold_out_product = dict_set ''in_stock'' (PBool False) bare_product"

definition huge_price_match :: match where
  "huge_price_match =
     \<lparr>match_id = PStr ''p2'', score = PFloat (1 / 2),
      metadata = PDict [(''price'', PInt (10 ^ 309))]\<rparr>"
section \<open>Dictionaries\<close>

lemma map_of_dict_set: "map_of (dict_set k v ps) = (map_of ps)(k \<mapsto> v)"
  by (induction ps) (auto simp: fun_eq_iff)

lemma keys_dict_set: "fst ` set (dict_set k v ps) = insert k (fst ` set ps)"
  by (induction ps) auto

lemma distinct_dict_set: "distinct (map fst ps) \<Longrightarrow> distinct (map fst (dict_set k v ps))"
  by (induction ps) (auto simp: keys_dict_set)

section \<open>The filter builder\<close>

lemma eq_filter_same:
  "map_of (eq_filter f v fd) f = (if truthy v then Some [(''$eq'', v)] else map_of fd f)"
  by (simp add: eq_filter_def map_of_dict_set)

lemma eq_filter_other: "k \<noteq> f \<Longrightarrow> map_of (eq_filter f v fd) k = map_of fd k"
  by (simp add: eq_filter_def map_of_dict_set)

lemma distinct_eq_filter: "distinct (map fst fd) \<Longrightarrow> distinct (map fst (eq_filter f v fd))"
  by (simp add: eq_filter_def distinct_dict_set)

lemma price_filter_other: "k \<noteq> ''price'' \<Longrightarrow> map_of (price_filter pr fd) k = map_of fd k"
  by (simp add: price_filter_def Let_def map_of_dict_set split: option.splits)

lemma price_filter_same:
  "map_of fd ''price'' = None \<Longrightarrow>
   map_of (price_filter pr fd) ''price'' = range_constraint (PDict pr)"
  by (simp add: price_filter_def range_constraint_def Let_def map_of_dict_set)

lemma distinct_price_filter: "distinct (map fst fd) \<Longrightarrow> distinct (map fst (price_filter pr fd))"
  by (simp add: price_filter_def Let_def distinct_dict_set split: option.splits)

lemma range_constraint_falsy: "\<not> truthy v \<Longrightarrow> range_constraint v = None"
  by (cases v) (simp_all add: range_constraint_def get_none_def py_get_def)

text \<open>
  Claim C2, as the code has it. Whenever the attributes are a dictionary (or absent),
  \<open>_build_filter\<close> returns a filter that holds exactly: an equality constraint for each
  of category, subcategory, color, fabric, technique and pattern whose value is present
  and truthy; a price constraint taken from the dictionary \<open>attributes['price_range']\<close>,
  with its \<open>min\<close> as lower and its \<open>max\<close> as upper bound, each bound on its own; and
  nothing else. The keys \<open>price_min\<close> and \<open>price_max\<close> are never read.
\<close>

theorem build_filter_constraints:
  assumes "py_get d ''attributes'' (PDict []) = PDict a"
  shows "\<exists>fd. build_filter (PDict d) = Inr fd
    \<and> map_of fd ''category'' = eq_constraint (get_none d ''category'')
    \<and> map_of fd ''subcategory'' = eq_constraint (get_none d ''subcategory'')
    \<and> map_of fd ''color'' = eq_constraint (get_none a ''color'')
    \<and> map_of fd ''fabric'' = eq_constraint (get_none a ''fabric'')
    \<and> map_of fd ''technique'' = eq_constraint (get_none a ''technique'')
    \<and> map_of fd ''pattern'' = eq_constraint (get_none a ''pattern'')
    \<and> map_of fd ''price'' = range_constraint (get_none a ''price_range'')
    \<and> set (map fst fd) \<subseteq> {''category'', ''subcategory'', ''color'', ''fabric'', ''technique'',
                              ''pattern'', ''price''}
    \<and> distinct (map fst fd)"
proof -
  define fd0 where "fd0 =
    eq_filter ''pattern'' (get_none a ''pattern'')
      (eq_filter ''technique'' (get_none a ''technique'')
        (eq_filter ''fabric'' (get_none a ''fabric'')
          (eq_filter ''color'' (get_none a ''color'')
            (eq_filter ''subcategory'' (get_none d ''subcategory'')
              (eq_filter ''category'' (get_none d ''category'') [])))))"
  define pr where "pr = get_none a ''price_range''"
  define fd where "fd = (if truthy pr then (case pr of PDict r \<Rightarrow> price_filter r fd0 | _ \<Rightarrow> fd0)
                         else fd0)"
  have bf: "build_filter (PDict d) = Inr fd"
    unfolding fd_def fd0_def pr_def using assms by (simp add: build_filter_def Let_def)
  have other: "map_of fd k = map_of fd0 k" if "k \<noteq> ''price''" for k
    using that by (simp add: fd_def price_filter_other split: pyval.splits)
  have p0: "map_of fd0 ''price'' = None"
    by (simp add: fd0_def eq_filter_other)
  have price: "map_of fd ''price'' = range_constraint pr"
  proof (cases "truthy pr")
    case False
    then show ?thesis by (simp add: fd_def p0 range_constraint_falsy)
  next
    case True
    then show ?thesis
      by (cases pr) (simp_all add: fd_def p0 price_filter_same range_constraint_def)
  qed
  have d0: "distinct (map fst fd0)"
    by (simp add: fd0_def distinct_eq_filter)
  have dist: "distinct (map fst fd)"
    by (simp add: fd_def d0 distinct_price_filter split: pyval.splits)
  have c1: "map_of fd ''category'' = eq_constraint (get_none d ''category'')"
    by (simp add: other fd0_def eq_filter_other eq_filter_same eq_constraint_def)
  have c2: "map_of fd ''subcategory'' = eq_constraint (get_none d ''subcategory'')"
    by (simp add: other fd0_def eq_filter_other eq_filter_same eq_constraint_def)
  have c3: "map_of fd ''color'' = eq_constraint (get_none a ''color'')"
    by (simp add: other fd0_def eq_filter_other eq_filter_same eq_constraint_def)
  have c4: "map_of fd ''fabric'' = eq_constraint (get_none a ''fabric'')"
    by (simp add: other fd0_def eq_filter_other eq_filter_same eq_constraint_def)
  have c5: "map_of fd ''technique'' = eq_constraint (get_none a ''technique'')"
    by (simp add: other fd0_def eq_filter_other eq_filter_same eq_constraint_def)
  have c6: "map_of fd ''pattern'' = eq_constraint (get_none a ''pattern'')"
    by (simp add: other fd0_def eq_filter_other eq_filter_same eq_constraint_def)
  have keys: "set (map fst fd) \<subseteq> {''category'', ''subcategory'', ''color'', ''fabric'',
                                     ''technique'', ''pattern'', ''price''}"
  proof
    fix k assume "k \<in> set (map fst fd)"
    then have some: "map_of fd k \<noteq> None"
      by (simp add: map_of_eq_None_iff)
    show "k \<in> {''category'', ''subcategory'', ''color'', ''fabric'', ''technique'', ''pattern'',
               ''price''}"
    proof (rule ccontr)
      assume out: "k \<notin> {''category'', ''subcategory'', ''color'', ''fabric'', ''technique'',
                         ''pattern'', ''price''}"
      then have "k \<noteq> ''price''" by simp
      then have "map_of fd k = map_of fd0 k" by (rule other)
      also from out have "\<dots> = None" by (simp add: fd0_def eq_filter_other)
      finally show False using some by simp
    qed
  qed
  show ?thesis
    unfolding pr_def[symmetric]
    by (rule exI[of _ fd]) (intro conjI bf c1 c2 c3 c4 c5 c6 price keys dist)
qed

text \<open>
  The theorem at the intent of an indigo cotton Ajrakh saree with a price range of 2000 to
  3000: four equality constraints, the two-sided price constraint, no others.
\<close>

theorem build_filter_constraints_witness:
  "py_get sample_intent_data ''attributes'' (PDict []) = PDict sample_attributes \<and>
   (\<exists>fd. build_filter (PDict sample_intent_data) = Inr fd
      \<and> map_of fd ''category'' = Some [(''$eq'', PStr ''Saree'')]
      \<and> map_of fd ''subcategory'' = Some [(''$eq'', PStr ''Ajrakh Saree'')]
      \<and> map_of fd ''color'' = Some [(''$eq'', PStr ''indigo'')]
      \<and> map_of fd ''fabric'' = Some [(''$eq'', PStr ''cotton'')]
      \<and> map_of fd ''technique'' = None
      \<and> map_of fd ''pattern'' = None
      \<and> map_of fd ''price'' = Some [(''$gte'', PInt 2000), (''$lte'', PInt 3000)])"
proof -
  have h: "py_get sample_intent_data ''attributes'' (PDict []) = PDict sample_attributes"
    by (simp add: sample_intent_data_def py_get_def)
  from build_filter_constraints [OF h] obtain fd where
    "build_filter (PDict sample_intent_data) = Inr fd"
    "map_of fd ''category'' = eq_constraint (get_none sample_intent_data ''category'')"
    "map_of fd ''subcategory'' = eq_constraint (get_none sample_intent_data ''subcategory'')"
    "map_of fd ''color'' = eq_constraint (get_none sample_attributes ''color'')"
    "map_of fd ''fabric'' = eq_constraint (get_none sample_attributes ''fabric'')"
    "map_of fd ''technique'' = eq_constraint (get_none sample_attributes ''technique'')"
    "map_of fd ''pattern'' = eq_constraint (get_none sample_attributes ''pattern'')"
    "map_of fd ''price'' = range_constraint (get_none sample_attributes ''price_range'')"
    by blast
  then have "build_filter (PDict sample_intent_data) = Inr fd
      \<and> map_of fd ''category'' = Some [(''$eq'', PStr ''Saree'')]
      \<and> map_of fd ''subcategory'' = Some [(''$eq'', PStr ''Ajrakh Saree'')]
      \<and> map_of fd ''color'' = Some [(''$eq'', PStr ''indigo'')]
      \<and> map_of fd ''fabric'' = Some [(''$eq'', PStr ''cotton'')]
      \<and> map_of fd ''technique'' = None
      \<and> map_of fd ''pattern'' = None
      \<and> map_of fd ''price'' = Some [(''$gte'', PInt 2000), (''$lte'', PInt 3000)]"
    by (simp add: eq_constraint_def range_constraint_def get_none_def py_get_def
          sample_intent_data_def sample_attributes_def)
  with h show ?thesis by blast
qed

text \<open>
  Claim C2 as the specification states it fails: from attributes that hold only
  \<open>price_max: 3000\<close> the filter is empty, not the single constraint \<open>price \<le> 3000\<close>.
\<close>

theorem build_filter_price_max_counterexample:
  "build_filter (PDict [(''attributes'', PDict [(''price_max'', PInt 3000)])]) = Inr [] \<and>
   build_filter (PDict [(''attributes'', PDict [(''price_max'', PInt 3000)])])
     \<noteq> Inr [(''price'', [(''$lte'', PInt 3000)])]"
  by (simp add: build_filter_def py_get_def get_none_def eq_filter_def)

section \<open>The action router\<close>

lemma py_less_float_number:
  "number_value v = Some c \<Longrightarrow> py_less_float v b = Inr (c < b)"
  by (cases v) (auto simp: number_value_def py_less_float_def)

text \<open>
  Claim C3. For every intent whose confidence is a number \<open>c\<close> (the default 0.5 when the
  key is absent), \<open>_decide_action\<close> returns the first match of: intent type \<open>off_topic\<close>
  gives chat; \<open>needs_clarification\<close> true or \<open>c < 0.6\<close> gives clarify; intent type
  \<open>product_search\<close> gives search; anything else gives chat. The result depends on the
  intent type, the confidence and \<open>needs_clarification\<close> only: two intents that agree on
  these three are routed alike, whatever the session.
\<close>

theorem decide_action_order:
  assumes "number_value (py_get intent ''confidence'' (PFloat (1 / 2))) = Some c"
  shows "decide_action intent session =
           Inr (if py_get intent ''intent_type'' (PStr ''general_question'') = PStr ''off_topic''
                then ''chat''
                else if truthy (py_get intent ''needs_clarification'' (PBool False)) \<or> c < 6 / 10
                then ''clarify''
                else if py_get intent ''intent_type'' (PStr ''general_question'')
                          = PStr ''product_search''
                then ''search''
                else ''chat'')
       \<and> (\<forall>intent2 session2.
            py_get intent2 ''intent_type'' (PStr ''general_question'') =
              py_get intent ''intent_type'' (PStr ''general_question'') \<and>
            py_get intent2 ''needs_clarification'' (PBool False) =
              py_get intent ''needs_clarification'' (PBool False) \<and>
            py_get intent2 ''confidence'' (PFloat (1 / 2)) =
              py_get intent ''confidence'' (PFloat (1 / 2))
            \<longrightarrow> decide_action intent2 session2 = decide_action intent session)"
  using assms
  by (simp add: decide_action_def Let_def py_less_float_number
        ACTION_CHAT_def ACTION_CLARIFY_def ACTION_SEARCH_def)

text \<open>
  The theorem at the two intents of the specification: off-topic with confidence 0.95 is
  routed to chat, a product search with confidence 0.4 to clarify; and a product search
  that also names a category is routed as the one that does not.
\<close>

theorem decide_action_order_witness:
  "number_value (py_get off_topic_intent ''confidence'' (PFloat (1 / 2))) = Some (95 / 100) \<and>
   decide_action off_topic_intent sample_session = Inr ''chat'' \<and>
   number_value (py_get low_confidence_intent ''confidence'' (PFloat (1 / 2))) = Some (4 / 10) \<and>
   decide_action low_confidence_intent sample_session = Inr ''clarify'' \<and>
   decide_action (low_confidence_intent @ [(''category'', PStr ''Saree'')])
       (new_session ''other'' 0) =
     decide_action low_confidence_intent sample_session"
proof -
  have h1: "number_value (py_get off_topic_intent ''confidence'' (PFloat (1 / 2))) = Some (95 / 100)"
    by (simp add: off_topic_intent_def py_get_def number_value_def)
  have h2: "number_value (py_get low_confidence_intent ''confidence'' (PFloat (1 / 2))) = Some (4 / 10)"
    by (simp add: low_confidence_intent_def py_get_def number_value_def)
  from decide_action_order [OF h1, of sample_session]
  have r1: "decide_action off_topic_intent sample_session = Inr ''chat''"
    by (simp add: off_topic_intent_def py_get_def)
  from decide_action_order [OF h2, of sample_session]
  have r2: "decide_action low_confidence_intent sample_session = Inr ''clarify''"
    and r3: "decide_action (low_confidence_intent @ [(''category'', PStr ''Saree'')])
               (new_session ''other'' 0) =
             decide_action low_confidence_intent sample_session"
    by (simp_all add: low_confidence_intent_def py_get_def)
  from h1 h2 r1 r2 r3 show ?thesis by blast
qed

section \<open>The context window\<close>

lemma slice_from_neg:
  "0 < n \<Longrightarrow> n < int (length xs) \<Longrightarrow> slice_from (- n) xs = drop (length xs - nat n) xs"
  by (simp add: slice_from_def Let_def nat_diff_distrib')

text \<open>
  For a positive \<open>n\<close> the window is the last \<open>min n N\<close> messages in their order, each
  reduced to its role and content.
\<close>

lemma get_context_window_positive:
  assumes "0 < n"
  shows "get_context_window s n =
           map (\<lambda>msg. \<lparr>chat_role = msg_role msg, chat_content = msg_content msg\<rparr>)
             (drop (length (messages s) - nat n) (messages s))
       \<and> length (get_context_window s n) = min (nat n) (length (messages s))"
  using assms by (auto simp: get_context_window_def Let_def slice_from_neg)

text \<open>
  Claim C8 at \<open>n = 0\<close>. The claim asks for the last \<open>min 0 3 = 0\<close> messages of a history of
  three; \<open>get_context_window\<close> returns all three, since \<open>messages[-0:]\<close> is the whole list.
\<close>

theorem get_context_window_zero:
  "length (messages sample_session) = 3 \<and>
   get_context_window sample_session 0 =
     [\<lparr>chat_role = ''user'', chat_content = PStr ''Hello''\<rparr>,
      \<lparr>chat_role = ''assistant'', chat_content = PStr ''Welcome''\<rparr>,
      \<lparr>chat_role = ''user'', chat_content = PStr ''Sarees?''\<rparr>] \<and>
   length (get_context_window sample_session 0) \<noteq> min 0 (length (messages sample_session))"
  by (simp add: get_context_window_def sample_session_def slice_from_def)

section \<open>The retrieval adapter\<close>

lemma py_strip_Nil: "py_strip [] = []"
  by (simp add: py_strip_def lstrip_def rstrip_def)

lemma index_queries_log_event:
  "index_queries (trace (log_event ev st)) =
     index_queries (trace st) @ (if is_index_search ev then [ev] else [])"
  by (simp add: index_queries_def log_event_def)

lemma index_queries_initialize:
  "index_queries (trace (fst (initialize world st))) = index_queries (trace st)"
  by (simp add: initialize_def index_queries_log_event is_index_search_def split: option.splits)

lemma search_blank:
  assumes "py_strip q = []"
  shows "search world (PStr q) intent_data top_k st =
           (case initialize world st of
              (st1, None) \<Rightarrow> (st1, Inr [])
            | (st1, Some e) \<Rightarrow> (st1, Inl e))"
  using assms by (simp add: search_def split: prod.splits option.splits)

text \<open>
  Claim C4, as the code has it. For every query text that is empty after trimming, and
  every filter and \<open>top_k\<close>, \<open>search\<close> does what the lazy initialisation does and nothing
  more: it issues no query of the index, and it returns the empty sequence unless the
  initialisation raises, in which case that failure propagates. On a service that is
  already initialised it returns the empty sequence and contacts no collaborator.
\<close>

theorem search_blank_query:
  assumes "py_strip q = []"
  shows "search world (PStr q) intent_data top_k st =
           (case initialize world st of
              (st1, None) \<Rightarrow> (st1, Inr [])
            | (st1, Some e) \<Rightarrow> (st1, Inl e))
       \<and> index_queries (trace (fst (search world (PStr q) intent_data top_k st))) =
           index_queries (trace st)
       \<and> (initialized st \<longrightarrow> search world (PStr q) intent_data top_k st = (st, Inr []))"
proof -
  obtain st1 r where i: "initialize world st = (st1, r)"
    by (cases "initialize world st")
  have s: "search world (PStr q) intent_data top_k st =
             (case initialize world st of
                (st1, None) \<Rightarrow> (st1, Inr [])
              | (st1, Some e) \<Rightarrow> (st1, Inl e))"
    using assms by (rule search_blank)
  have "fst (search world (PStr q) intent_data top_k st) = fst (initialize world st)"
    unfolding s i by (cases r) simp_all
  then have t: "index_queries (trace (fst (search world (PStr q) intent_data top_k st))) =
                  index_queries (trace st)"
    by (simp add: index_queries_initialize)
  have "initialized st \<longrightarrow> search world (PStr q) intent_data top_k st = (st, Inr [])"
    unfolding s by (simp add: initialize_def)
  with s t show ?thesis by blast
qed

text \<open>
  The theorem at a query of three spaces on an initialised service in the world where
  every collaborator raises: the empty sequence, and the state as it was.
\<close>

theorem search_blank_query_witness:
  "py_strip ''   '' = [] \<and>
   initialized (initial_state\<lparr>initialized := True\<rparr>) \<and>
   search stub_world (PStr ''   '') (PDict sample_intent_data) 10
       (initial_state\<lparr>initialized := True\<rparr>) =
     (initial_state\<lparr>initialized := True\<rparr>, Inr [])"
proof -
  have h: "py_strip ''   '' = []"
    by (simp add: py_strip_def lstrip_def rstrip_def ws1_def byte_def)
  have i: "initialized (initial_state\<lparr>initialized := True\<rparr>)"
    by simp
  from search_blank_query [OF h, of stub_world "PDict sample_intent_data" 10
      "initial_state\<lparr>initialized := True\<rparr>"] i
  have "search stub_world (PStr ''   '') (PDict sample_intent_data) 10
          (initial_state\<lparr>initialized := True\<rparr>) =
        (initial_state\<lparr>initialized := True\<rparr>, Inr [])"
    by blast
  with h i show ?thesis by blast
qed

text \<open>
  Claim C4 as the specification states it fails on a service that has not searched yet:
  the client is built before the text is tested. Where building it raises, \<open>search\<close>
  raises too; where it succeeds, the empty sequence comes with a contact in the trace.
\<close>

theorem search_blank_query_counterexample:
  "py_strip ''   '' = [] \<and>
   search stub_world (PStr ''   '') PNone 10 initial_state =
     (initial_state\<lparr>trace := [PineconeInitEvent]\<rparr>, Inl (External 1)) \<and>
   search index_down_world (PStr ''   '') PNone 10 initial_state =
     (initial_state\<lparr>initialized := True, trace := [PineconeInitEvent]\<rparr>, Inr [])"
  by (simp add: search_def initialize_def log_event_def stub_world_def index_down_world_def
        initial_state_def py_strip_def lstrip_def rstrip_def ws1_def byte_def)

text \<open>
  Claim C7, as the code has it. For every query text that is not empty after trimming,
  once the lazy initialisation has succeeded and the filter has been built, every
  failure of the index query, and every failure in converting its answer, ends in the
  empty sequence. The initialisation and the filter builder run before the \<open>try\<close>: what
  they raise propagates out of \<open>search\<close>.
\<close>

theorem search_collaborator_failure:
  assumes "py_strip q \<noteq> []"
    and "initialize world st = (st1, None)"
    and "(if truthy intent_data then build_filter intent_data else Inr []) = Inr fd"
    and "index_search world (trace st1) q top_k = Inl e \<or>
         (\<exists>raw e'. index_search world (trace st1) q top_k = Inr raw \<and>
                   convert_results_to_matches raw = Inl e')"
  shows "search world (PStr q) intent_data top_k st =
           (log_event (IndexSearchEvent q top_k) st1, Inr [])"
proof -
  from assms(1) have "q \<noteq> []" using py_strip_Nil by auto
  with assms show ?thesis
    by (auto simp: search_def)
qed

text \<open>
  The theorem at the query \<open>red silk saree\<close> on a fresh service, once in the world whose
  index query raises and once in the world whose index answers with malformed hits.
\<close>

theorem search_collaborator_failure_witness:
  "py_strip ''red silk saree'' \<noteq> [] \<and>
   initialize index_down_world initial_state =
     (initial_state\<lparr>initialized := True, trace := [PineconeInitEvent]\<rparr>, None) \<and>
   index_search index_down_world [PineconeInitEvent] ''red silk saree'' 5 = Inl (External 2) \<and>
   search index_down_world (PStr ''red silk saree'') PNone 5 initial_state =
     (initial_state\<lparr>initialized := True,
        trace := [PineconeInitEvent, IndexSearchEvent ''red silk saree'' 5]\<rparr>, Inr []) \<and>
   convert_results_to_matches (RawObject (Some (PDict [(''hits'', PInt 3)]))) = Inl TypeError \<and>
   search malformed_world (PStr ''red silk saree'') PNone 5 initial_state =
     (initial_state\<lparr>initialized := True,
        trace := [PineconeInitEvent, IndexSearchEvent ''red silk saree'' 5]\<rparr>, Inr [])"
proof -
  let ?st1 = "initial_state\<lparr>initialized := True, trace := [PineconeInitEvent]\<rparr>"
  have q: "py_strip ''red silk saree'' \<noteq> []"
    by (simp add: py_strip_def lstrip_def rstrip_def ws1_def ws2_def ws3_def byte_def)
  have i1: "initialize index_down_world initial_state = (?st1, None)"
    by (simp add: initialize_def index_down_world_def stub_world_def initial_state_def log_event_def)
  have i2: "initialize malformed_world initial_state = (?st1, None)"
    by (simp add: initialize_def malformed_world_def stub_world_def initial_state_def log_event_def)
  have f: "(if truthy PNone then build_filter PNone else Inr []) = Inr []"
    by simp
  have t: "trace ?st1 = [PineconeInitEvent]"
    by simp
  have x1: "index_search index_down_world [PineconeInitEvent] ''red silk saree'' 5 = Inl (External 2)"
    by (simp add: index_down_world_def stub_world_def)
  have c: "convert_results_to_matches (RawObject (Some (PDict [(''hits'', PInt 3)]))) = Inl TypeError"
    by (simp add: convert_results_to_matches_def iterate_hits_def py_get_def)
  have x2: "index_search malformed_world [PineconeInitEvent] ''red silk saree'' 5 =
              Inr (RawObject (Some (PDict [(''hits'', PInt 3)])))"
    by (simp add: malformed_world_def stub_world_def)
  have l: "log_event (IndexSearchEvent ''red silk saree'' 5) ?st1 =
             initial_state\<lparr>initialized := True,
               trace := [PineconeInitEvent, IndexSearchEvent ''red silk saree'' 5]\<rparr>"
    by (simp add: log_event_def initial_state_def)
  have d1: "index_search index_down_world (trace ?st1) ''red silk saree'' 5 = Inl (External 2) \<or>
         (\<exists>raw e'. index_search index_down_world (trace ?st1) ''red silk saree'' 5 = Inr raw \<and>
                   convert_results_to_matches raw = Inl e')"
    unfolding t using x1 by blast
  have d2: "index_search malformed_world (trace ?st1) ''red silk saree'' 5 = Inl (External 2) \<or>
         (\<exists>raw e'. index_search malformed_world (trace ?st1) ''red silk saree'' 5 = Inr raw \<and>
                   convert_results_to_matches raw = Inl e')"
    unfolding t using x2 c by blast
  have s1: "search index_down_world (PStr ''red silk saree'') PNone 5 initial_state =
              (log_event (IndexSearchEvent ''red silk saree'' 5) ?st1, Inr [])"
    by (rule search_collaborator_failure [OF q i1 f d1])
  have s2: "search malformed_world (PStr ''red silk saree'') PNone 5 initial_state =
              (log_event (IndexSearchEvent ''red silk saree'' 5) ?st1, Inr [])"
    by (rule search_collaborator_failure [OF q i2 f d2])
  from q i1 x1 c s1 s2 show ?thesis
    unfolding l by blast
qed

text \<open>
  Claim C7 as the specification states it fails on a service that has not searched yet:
  when building the index client raises, the failure propagates out of \<open>search\<close>
  instead of becoming the empty sequence.
\<close>

theorem search_failure_counterexample:
  "py_strip ''red silk saree'' \<noteq> [] \<and>
   pinecone_init stub_world (trace initial_state) = Some (External 1) \<and>
   search stub_world (PStr ''red silk saree'') PNone 5 initial_state =
     (initial_state\<lparr>trace := [PineconeInitEvent]\<rparr>, Inl (External 1)) \<and>
   snd (search stub_world (PStr ''red silk saree'') PNone 5 initial_state) \<noteq> Inr []"
  by (simp add: search_def initialize_def log_event_def stub_world_def
        initial_state_def py_strip_def lstrip_def rstrip_def ws1_def ws2_def ws3_def byte_def)

text \<open>
  What the lazy initialisation or the filter builder raises leaves \<open>search\<close> as it is.
\<close>

lemma search_initialize_failure:
  "initialize world st = (st1, Some e) \<Longrightarrow>
     search world query_text intent_data top_k st = (st1, Inl e)"
  by (simp add: search_def)

lemma search_filter_failure:
  assumes "py_strip q \<noteq> []"
    and "initialize world st = (st1, None)"
    and "truthy intent_data"
    and "build_filter intent_data = Inl e"
  shows "search world (PStr q) intent_data top_k st = (st1, Inl e)"
proof -
  from assms(1) have "q \<noteq> []" using py_strip_Nil by auto
  with assms show ?thesis
    by (simp add: search_def)
qed

section \<open>The orchestrator\<close>

lemma trace_session_add_message:
  "trace (snd (session_add_message role content session st)) = trace st"
  by (simp add: session_add_message_def put_session_def Let_def)

lemma initialized_session_add_message:
  "initialized (snd (session_add_message role content session st)) = initialized st"
  by (simp add: session_add_message_def put_session_def Let_def)

lemma trace_get_or_create:
  "trace (snd (get_or_create_session session_id st)) = trace st"
  by (simp add: get_or_create_session_def put_session_def Let_def split: option.splits)

lemma initialized_get_or_create:
  "initialized (snd (get_or_create_session session_id st)) = initialized st"
  by (simp add: get_or_create_session_def put_session_def Let_def split: option.splits)

text \<open>The first two steps of a turn leave the trace alone and fix the messages it sends.\<close>

lemma turn_start:
  assumes "get_or_create_session session_id st = (session0, st0)"
    and "session_add_message ''user'' (PStr user_message) session0 st0 = (session1, st1)"
  shows "turn_messages user_message session_id st = intent_messages session1 user_message
       \<and> trace st1 = trace st \<and> initialized st1 = initialized st"
proof -
  have "turn_messages user_message session_id st = intent_messages session1 user_message"
    using assms by (simp add: turn_messages_def)
  moreover have "trace st0 = trace st" and "initialized st0 = initialized st"
    using trace_get_or_create [of session_id st] initialized_get_or_create [of session_id st]
      assms(1) by simp_all
  moreover have "trace st1 = trace st0" and "initialized st1 = initialized st0"
    using trace_session_add_message [of "''user''" "PStr user_message" session0 st0]
      initialized_session_add_message [of "''user''" "PStr user_message" session0 st0]
      assms(2) by simp_all
  ultimately show ?thesis by simp
qed

lemma session_update_context_trace:
  "session_update_context key val session st = (s, st') \<Longrightarrow>
     trace st' = trace st \<and> initialized st' = initialized st"
  by (auto simp: session_update_context_def put_session_def Let_def)

text \<open>A classification that parses to a JSON object is the intent of the turn.\<close>

lemma extract_intent_parsed:
  assumes l: "llm world (trace st) (IntentCall (intent_messages session user_message))
                = Inr (Some content)"
    and j: "json_loads world content = Some (PDict intent)"
  shows "\<exists>s2 st2. extract_intent world user_message session st = (s2, st2, intent)
           \<and> trace st2 = trace st @ [LLMEvent (IntentCall (intent_messages session user_message))]
           \<and> initialized st2 = initialized st"
proof -
  let ?st1 = "log_event (LLMEvent (IntentCall (intent_messages session user_message))) st"
  let ?a = "get_none intent ''attributes''"
  let ?c = "get_none intent ''category''"
  have t1: "trace ?st1 = trace st @ [LLMEvent (IntentCall (intent_messages session user_message))]"
    and i1: "initialized ?st1 = initialized st"
    by (simp_all add: log_event_def)
  obtain s1 st2 where u1: "(if truthy ?a then session_update_context ''last_attributes'' ?a session ?st1
                            else (session, ?st1)) = (s1, st2)"
    by (cases "(if truthy ?a then session_update_context ''last_attributes'' ?a session ?st1
                            else (session, ?st1))")
  have p1: "trace st2 = trace ?st1 \<and> initialized st2 = initialized ?st1"
    using u1 session_update_context_trace [of "''last_attributes''" ?a session ?st1 s1 st2]
    by (cases "truthy ?a") auto
  obtain s2 st3 where u2: "(if truthy ?c then session_update_context ''last_category'' ?c s1 st2
                            else (s1, st2)) = (s2, st3)"
    by (cases "(if truthy ?c then session_update_context ''last_category'' ?c s1 st2
                            else (s1, st2))")
  have p2: "trace st3 = trace st2 \<and> initialized st3 = initialized st2"
    using u2 session_update_context_trace [of "''last_category''" ?c s1 st2 s2 st3]
    by (cases "truthy ?c") auto
  have "extract_intent world user_message session st = (s2, st3, intent)"
    using l j u1 u2 unfolding intent_messages_def
    by (simp add: extract_intent_def call_llm_def Let_def)
  with p1 p2 t1 i1 show ?thesis by simp
qed

lemma off_topic_decide:
  "py_get intent ''intent_type'' (PStr ''general_question'') = PStr ''off_topic'' \<Longrightarrow>
     decide_action intent session = Inr ''chat''"
  by (simp add: decide_action_def Let_def ACTION_CHAT_def)

lemma off_topic_execute:
  "py_get intent ''intent_type'' (PStr ''general_question'') = PStr ''off_topic'' \<Longrightarrow>
     execute_action world ''chat'' intent user_message session st =
       (st, Inr \<lparr>rd_response = PStr boundary_message, rd_products = [], rd_action = ''chat'',
                 rd_intent = Some intent, rd_error = None\<rparr>)"
  by (simp add: execute_action_def execute_chat_def Let_def
        ACTION_CHAT_def ACTION_SEARCH_def ACTION_CLARIFY_def)

lemma off_topic_turn:
  assumes o: "py_get intent ''intent_type'' (PStr ''general_question'') = PStr ''off_topic''"
    and l: "llm world (trace st) (IntentCall (turn_messages user_message session_id st))
              = Inr (Some content)"
    and j: "json_loads world content = Some (PDict intent)"
  shows "snd (process_message world user_message session_id st) =
           \<lparr>rd_response = PStr boundary_message, rd_products = [], rd_action = ''chat'',
            rd_intent = Some intent, rd_error = None\<rparr>
       \<and> trace (fst (process_message world user_message session_id st)) =
           trace st @ [LLMEvent (IntentCall (turn_messages user_message session_id st))]
       \<and> initialized (fst (process_message world user_message session_id st)) = initialized st"
proof -
  obtain session0 st0 where g: "get_or_create_session session_id st = (session0, st0)"
    by (cases "get_or_create_session session_id st")
  obtain session1 st1
    where a: "session_add_message ''user'' (PStr user_message) session0 st0 = (session1, st1)"
    by (cases "session_add_message ''user'' (PStr user_message) session0 st0")
  from turn_start [OF g a]
  have tm: "turn_messages user_message session_id st = intent_messages session1 user_message"
    and t1: "trace st1 = trace st" and i1: "initialized st1 = initialized st"
    by simp_all
  from l tm t1
  have "llm world (trace st1) (IntentCall (intent_messages session1 user_message))
          = Inr (Some content)"
    by simp
  from extract_intent_parsed [OF this j]
  obtain session2 st2
    where e: "extract_intent world user_message session1 st1 = (session2, st2, intent)"
      and t2: "trace st2 = trace st1 @ [LLMEvent (IntentCall (intent_messages session1 user_message))]"
      and i2: "initialized st2 = initialized st1"
    by blast
  let ?rd = "\<lparr>rd_response = PStr boundary_message, rd_products = [], rd_action = ''chat'',
              rd_intent = Some intent, rd_error = None\<rparr>"
  have d: "decide_action intent session2 = Inr ''chat''"
    using o by (rule off_topic_decide)
  have x: "execute_action world ''chat'' intent user_message session2 st2 = (st2, Inr ?rd)"
    using o by (rule off_topic_execute)
  have pm: "process_message world user_message session_id st =
              (snd (session_add_message ''assistant'' (PStr boundary_message) session2 st2), ?rd)"
    by (simp add: process_message_def g a e d x)
  show ?thesis
    unfolding pm
    by (simp add: trace_session_add_message initialized_session_add_message t2 t1 i2 i1 tm)
qed

text \<open>
  Claim C5. For every intent whose intent type is \<open>off_topic\<close>, whatever its other fields,
  the router chooses chat, and the chat branch returns the fixed boundary message with
  no products and the action \<open>chat\<close>, leaving the service as it was. So does the whole
  pipeline: a turn whose classification yields such an intent is answered by
  \<open>process_message\<close> with that reply, and the only contact with a collaborator in the
  turn is the classification call itself; no query of the index and no generation call
  is added to the trace, and the index client is not even built.
\<close>

theorem off_topic_short_circuit:
  assumes "py_get intent ''intent_type'' (PStr ''general_question'') = PStr ''off_topic''"
  shows "decide_action intent session = Inr ''chat'' \<and>
         execute_action world ''chat'' intent user_message session st =
           (st, Inr \<lparr>rd_response = PStr
                       ''I'm only able to help with Jhimki's product catalogue and availability. How can I help you find something from our collection today?'',
                     rd_products = [], rd_action = ''chat'', rd_intent = Some intent,
                     rd_error = None\<rparr>) \<and>
         (\<forall>content.
            llm world (trace st) (IntentCall (turn_messages user_message session_id st))
              = Inr (Some content) \<and>
            json_loads world content = Some (PDict intent) \<longrightarrow>
            snd (process_message world user_message session_id st) =
              \<lparr>rd_response = PStr
                 ''I'm only able to help with Jhimki's product catalogue and availability. How can I help you find something from our collection today?'',
               rd_products = [], rd_action = ''chat'', rd_intent = Some intent,
               rd_error = None\<rparr> \<and>
            trace (fst (process_message world user_message session_id st)) =
              trace st @ [LLMEvent (IntentCall (turn_messages user_message session_id st))] \<and>
            initialized (fst (process_message world user_message session_id st)) =
              initialized st)"
  using assms off_topic_decide [of intent session]
    off_topic_execute [of intent world user_message session st]
    off_topic_turn [of intent world st user_message session_id]
  by (simp add: boundary_message_def)

text \<open>
  The theorem for the first message of a fresh service, in a world whose classifier
  finds the message off-topic with confidence 0.95 and whose other collaborators all
  raise: the reply is the boundary message, and the trace holds the classification call
  alone.
\<close>

theorem off_topic_short_circuit_witness:
  "py_get off_topic_intent ''intent_type'' (PStr ''general_question'') = PStr ''off_topic'' \<and>
   llm off_topic_world (trace initial_state)
       (IntentCall (turn_messages ''What's the weather?'' ''default'' initial_state))
     = Inr (Some ''off topic, confidence 0.95'') \<and>
   json_loads off_topic_world ''off topic, confidence 0.95'' = Some (PDict off_topic_intent) \<and>
   decide_action off_topic_intent sample_session = Inr ''chat'' \<and>
   rd_action (snd (process_message off_topic_world ''What's the weather?'' ''default''
                     initial_state)) = ''chat'' \<and>
   rd_products (snd (process_message off_topic_world ''What's the weather?'' ''default''
                       initial_state)) = [] \<and>
   trace (fst (process_message off_topic_world ''What's the weather?'' ''default''
                 initial_state)) =
     [LLMEvent (IntentCall
        [\<lparr>chat_role = ''user'', chat_content = PStr ''What's the weather?''\<rparr>,
         \<lparr>chat_role = ''user'', chat_content = PStr ''What's the weather?''\<rparr>])]"
proof -
  have h: "py_get off_topic_intent ''intent_type'' (PStr ''general_question'') = PStr ''off_topic''"
    by (simp add: off_topic_intent_def py_get_def)
  have l: "llm off_topic_world (trace initial_state)
             (IntentCall (turn_messages ''What's the weather?'' ''default'' initial_state))
           = Inr (Some ''off topic, confidence 0.95'')"
    by (simp add: off_topic_world_def stub_world_def)
  have j: "json_loads off_topic_world ''off topic, confidence 0.95'' = Some (PDict off_topic_intent)"
    by (simp add: off_topic_world_def stub_world_def)
  have tm: "turn_messages ''What's the weather?'' ''default'' initial_state =
              [\<lparr>chat_role = ''user'', chat_content = PStr ''What's the weather?''\<rparr>,
               \<lparr>chat_role = ''user'', chat_content = PStr ''What's the weather?''\<rparr>]"
    by (simp add: turn_messages_def intent_messages_def get_or_create_session_def
          session_add_message_def add_message_def new_session_def put_session_def
          get_context_window_def initial_state_def Let_def)
  have t0: "trace initial_state = []"
    by (simp add: initial_state_def)
  from off_topic_short_circuit [OF h, of sample_session off_topic_world
      "''What's the weather?''" initial_state "''default''"] l j
  have "decide_action off_topic_intent sample_session = Inr ''chat'' \<and>
        rd_action (snd (process_message off_topic_world ''What's the weather?'' ''default''
                          initial_state)) = ''chat'' \<and>
        rd_products (snd (process_message off_topic_world ''What's the weather?'' ''default''
                            initial_state)) = [] \<and>
        trace (fst (process_message off_topic_world ''What's the weather?'' ''default''
                      initial_state)) =
          trace initial_state @
            [LLMEvent (IntentCall (turn_messages ''What's the weather?'' ''default'' initial_state))]"
    by simp
  with h l j show ?thesis
    unfolding tm t0 by simp
qed

lemma extract_intent_default:
  assumes "classification_fails world (trace st) (intent_messages session user_message)"
  shows "extract_intent world user_message session st =
           (session, log_event (LLMEvent (IntentCall (intent_messages session user_message))) st,
            default_intent user_message)"
  using assms
  by (auto simp: extract_intent_def classification_fails_def intent_messages_def call_llm_def Let_def
           split: sum.splits option.splits pyval.splits)

lemma decide_default: "decide_action (default_intent user_message) session = Inr ACTION_CLARIFY"
  by (simp add: decide_action_def default_intent_def py_get_def py_less_float_def)

lemma execute_clarify_default:
  "execute_clarify (default_intent user_message) session =
     \<lparr>rd_response = PStr generic_clarification, rd_products = [], rd_action = ACTION_CLARIFY,
      rd_intent = Some (default_intent user_message), rd_error = None\<rparr>"
  by (simp add: execute_clarify_def default_intent_def get_none_def py_get_def)

lemma process_message_classification_fails:
  assumes "classification_fails world (trace st) (turn_messages user_message session_id st)"
  shows "snd (process_message world user_message session_id st) =
     \<lparr>rd_response = PStr generic_clarification, rd_products = [], rd_action = ACTION_CLARIFY,
      rd_intent = Some (default_intent user_message), rd_error = None\<rparr>"
proof -
  obtain session0 st0 where g: "get_or_create_session session_id st = (session0, st0)"
    by (cases "get_or_create_session session_id st")
  obtain session1 st1
    where a: "session_add_message ''user'' (PStr user_message) session0 st0 = (session1, st1)"
    by (cases "session_add_message ''user'' (PStr user_message) session0 st0")
  from turn_start [OF g a] assms
  have "classification_fails world (trace st1) (intent_messages session1 user_message)"
    by simp
  then have e: "extract_intent world user_message session1 st1 =
           (session1, log_event (LLMEvent (IntentCall (intent_messages session1 user_message))) st1,
            default_intent user_message)"
    by (rule extract_intent_default)
  show ?thesis
    by (simp add: process_message_def g a e decide_default execute_action_def
          execute_clarify_default ACTION_CLARIFY_def ACTION_SEARCH_def)
qed

text \<open>
  Claim C6. When the classification fails (the call raises, or its content is \<open>None\<close> or
  does not parse to a JSON object), \<open>_extract_intent\<close> returns the default intent: intent
  type \<open>general_question\<close>, the raw user text as search query, confidence 0.5 and
  \<open>needs_clarification\<close> false, the session unchanged. And a turn whose classification
  fails does not fail: \<open>process_message\<close> answers with the generic request for
  clarification under the action \<open>clarify\<close>, not with the error reply.
\<close>

theorem classification_failure_default:
  "(classification_fails world (trace st) (intent_messages session user_message) \<longrightarrow>
      extract_intent world user_message session st =
        (session, log_event (LLMEvent (IntentCall (intent_messages session user_message))) st,
         [(''intent_type'', PStr ''general_question''),
          (''search_query'', PStr user_message),
          (''confidence'', PFloat (1 / 2)),
          (''needs_clarification'', PBool False)]))
   \<and> (classification_fails world (trace st) (turn_messages user_message session_id st) \<longrightarrow>
        rd_action (snd (process_message world user_message session_id st)) = ''clarify'' \<and>
        rd_response (snd (process_message world user_message session_id st)) =
          PStr generic_clarification \<and>
        rd_products (snd (process_message world user_message session_id st)) = [] \<and>
        rd_error (snd (process_message world user_message session_id st)) = None)"
proof -
  have "classification_fails world (trace st) (intent_messages session user_message) \<longrightarrow>
      extract_intent world user_message session st =
        (session, log_event (LLMEvent (IntentCall (intent_messages session user_message))) st,
         [(''intent_type'', PStr ''general_question''),
          (''search_query'', PStr user_message),
          (''confidence'', PFloat (1 / 2)),
          (''needs_clarification'', PBool False)])"
    using extract_intent_default [of world st session user_message]
    by (simp add: default_intent_def)
  moreover have "classification_fails world (trace st) (turn_messages user_message session_id st) \<longrightarrow>
        rd_action (snd (process_message world user_message session_id st)) = ''clarify'' \<and>
        rd_response (snd (process_message world user_message session_id st)) =
          PStr generic_clarification \<and>
        rd_products (snd (process_message world user_message session_id st)) = [] \<and>
        rd_error (snd (process_message world user_message session_id st)) = None"
    using process_message_classification_fails [of world st user_message session_id]
    by (simp add: ACTION_CLARIFY_def)
  ultimately show ?thesis by blast
qed

text \<open>
  The theorem in the world where every collaborator raises, for a first message to a
  fresh service.
\<close>

theorem classification_failure_default_witness:
  "classification_fails stub_world (trace initial_state) (intent_messages sample_session ''Hello'')
   \<and> classification_fails stub_world (trace initial_state)
        (turn_messages ''Hello'' ''default'' initial_state)
   \<and> snd (snd (extract_intent stub_world ''Hello'' sample_session initial_state)) =
       [(''intent_type'', PStr ''general_question''), (''search_query'', PStr ''Hello''),
        (''confidence'', PFloat (1 / 2)), (''needs_clarification'', PBool False)]
   \<and> rd_action (snd (process_message stub_world ''Hello'' ''default'' initial_state)) = ''clarify''"
proof -
  have f: "classification_fails stub_world tr msgs" for tr msgs
    by (simp add: classification_fails_def stub_world_def)
  from classification_failure_default [of stub_world initial_state sample_session "''Hello''"
      "''default''"] f
  have "snd (snd (extract_intent stub_world ''Hello'' sample_session initial_state)) =
       [(''intent_type'', PStr ''general_question''), (''search_query'', PStr ''Hello''),
        (''confidence'', PFloat (1 / 2)), (''needs_clarification'', PBool False)]
     \<and> rd_action (snd (process_message stub_world ''Hello'' ''default'' initial_state)) = ''clarify''"
    by simp
  with f show ?thesis by blast
qed

section \<open>The history of a session\<close>

lemma sessions_log_event [simp]: "sessions (log_event ev st) = sessions st"
  by (simp add: log_event_def)

lemma sessions_call_llm [simp]: "sessions (fst (call_llm world call st)) = sessions st"
  by (simp add: call_llm_def)

lemma sessions_initialize [simp]: "sessions (fst (initialize world st)) = sessions st"
  by (simp add: initialize_def split: option.splits)

lemma sessions_search [simp]:
  "sessions (fst (search world query_text intent_data top_k st)) = sessions st"
proof -
  obtain st1 r where i: "initialize world st = (st1, r)"
    by (cases "initialize world st")
  then have "sessions st1 = sessions st"
    using sessions_initialize[of world st] by simp
  with i show ?thesis
    by (auto simp: search_def split: option.splits pyval.splits sum.splits)
qed

lemma sessions_generate [simp]:
  "sessions (fst (generate_search_response world intent products session st)) = sessions st"
  by (auto simp: generate_search_response_def call_llm_def split: pyval.splits sum.splits prod.splits)

lemma sessions_execute_search [simp]:
  "sessions (fst (execute_search world intent session st)) = sessions st"
proof -
  let ?q = "py_get intent ''search_query'' (PStr [])"
  let ?d = "PDict [(''category'', get_none intent ''category''),
                   (''subcategory'', get_none intent ''subcategory''),
                   (''attributes'', py_get intent ''attributes'' (PDict []))]"
  obtain st1 r where s: "search world ?q ?d 10 st = (st1, r)"
    by (cases "search world ?q ?d 10 st")
  then have s1: "sessions st1 = sessions st"
    using sessions_search[of world ?q ?d 10 st] by simp
  show ?thesis
  proof (cases r)
    case (Inl e)
    with s s1 show ?thesis by (simp add: execute_search_def)
  next
    case (Inr matches)
    show ?thesis
    proof (cases "format_products world matches")
      case (Inl e)
      with s s1 Inr show ?thesis by (simp add: execute_search_def)
    next
      case fp: (Inr products)
      obtain st2 r2 where g: "generate_search_response world intent products session st1 = (st2, r2)"
        by (cases "generate_search_response world intent products session st1")
      then have "sessions st2 = sessions st1"
        using sessions_generate[of world intent products session st1] by simp
      with s s1 Inr fp g show ?thesis
        by (cases r2) (simp_all add: execute_search_def)
    qed
  qed
qed

lemma sessions_execute_chat [simp]:
  "sessions (fst (execute_chat world intent user_message session st)) = sessions st"
  by (auto simp: execute_chat_def call_llm_def Let_def split: sum.splits)

lemma sessions_execute_action [simp]:
  "sessions (fst (execute_action world action intent user_message session st)) = sessions st"
proof -
  obtain st1 rd where c: "execute_chat world intent user_message session st = (st1, rd)"
    by (cases "execute_chat world intent user_message session st")
  then have "sessions st1 = sessions st"
    using sessions_execute_chat[of world intent user_message session st] by simp
  with c show ?thesis
    by (simp add: execute_action_def)
qed

lemma session_update_context_stored:
  "session_update_context key val session st = (s, st') \<Longrightarrow>
     sessions st' (sid session) = Some s \<and> messages s = messages session \<and> sid s = sid session"
  by (auto simp: session_update_context_def update_context_def put_session_def Let_def)

lemma extract_intent_stored:
  assumes "sessions st (sid session) = Some session"
    and "extract_intent world user_message session st = (s, st', intent)"
  shows "sessions st' (sid session) = Some s \<and> messages s = messages session \<and> sid s = sid session"
proof -
  let ?msgs = "get_context_window session 5 @ [\<lparr>chat_role = ''user'', chat_content = PStr user_message\<rparr>]"
  let ?st1 = "log_event (LLMEvent (IntentCall ?msgs)) st"
  have base: "sessions ?st1 (sid session) = Some session"
    using assms(1) by simp
  show ?thesis
  proof (cases "\<exists>t i. llm world (trace st) (IntentCall ?msgs) = Inr (Some t) \<and>
                          json_loads world t = Some (PDict i)")
    case False
    then have "extract_intent world user_message session st = (session, ?st1, default_intent user_message)"
      by (auto simp: extract_intent_def call_llm_def Let_def split: sum.splits option.splits pyval.splits)
    with assms(2) have "s = session" and "st' = ?st1" by auto
    with base show ?thesis by simp
  next
    case True
    then obtain t i where l: "llm world (trace st) (IntentCall ?msgs) = Inr (Some t)"
      and j: "json_loads world t = Some (PDict i)" by blast
    let ?a = "get_none i ''attributes''"
    let ?c = "get_none i ''category''"
    obtain s1 st2 where u1: "(if truthy ?a then session_update_context ''last_attributes'' ?a session ?st1
                              else (session, ?st1)) = (s1, st2)"
      by (cases "(if truthy ?a then session_update_context ''last_attributes'' ?a session ?st1
                              else (session, ?st1))")
    have p1: "sessions st2 (sid session) = Some s1 \<and> messages s1 = messages session \<and> sid s1 = sid session"
      using u1 base session_update_context_stored[of "''last_attributes''" ?a session ?st1 s1 st2]
      by (cases "truthy ?a") auto
    obtain s2 st3 where u2: "(if truthy ?c then session_update_context ''last_category'' ?c s1 st2
                              else (s1, st2)) = (s2, st3)"
      by (cases "(if truthy ?c then session_update_context ''last_category'' ?c s1 st2
                              else (s1, st2))")
    have p2: "sessions st3 (sid session) = Some s2 \<and> messages s2 = messages session \<and> sid s2 = sid session"
      using u2 p1 session_update_context_stored[of "''last_category''" ?c s1 st2 s2 st3]
      by (cases "truthy ?c") auto
    have "extract_intent world user_message session st = (s2, st3, i)"
      using l j u1 u2 by (simp add: extract_intent_def call_llm_def Let_def)
    with assms(2) have "s = s2" and "st' = st3" by auto
    with p2 show ?thesis by simp
  qed
qed

text \<open>
  What a turn does to the history of its session, on a service whose store holds each
  session under its own identifier: the user message is appended first, and the reply
  is appended as the assistant turn exactly when the turn did not end in the error reply.
\<close>

lemma process_message_history:
  assumes wf: "\<And>s. sessions st session_id = Some s \<Longrightarrow> sid s = session_id"
    and run: "process_message world user_message session_id st = (st', rd)"
  shows "history st' session_id =
           history st session_id @ [(''user'', PStr user_message)] @
           (if rd_action rd = ''error'' then [] else [(''assistant'', rd_response rd)])"
proof -
  obtain session0 st0 where g: "get_or_create_session session_id st = (session0, st0)"
    by (cases "get_or_create_session session_id st")
  have g0: "sid session0 = session_id"
    and g1: "map (\<lambda>msg. (msg_role msg, msg_content msg)) (messages session0) = history st session_id"
    using g wf
    by (auto simp: get_or_create_session_def new_session_def history_def Let_def split: option.splits)
  obtain session1 st1 where a: "session_add_message ''user'' (PStr user_message) session0 st0 = (session1, st1)"
    by (cases "session_add_message ''user'' (PStr user_message) session0 st0")
  have a0: "sid session1 = session_id"
    and a1: "sessions st1 session_id = Some session1"
    and a2: "map (\<lambda>msg. (msg_role msg, msg_content msg)) (messages session1) =
               history st session_id @ [(''user'', PStr user_message)]"
    using a g0 g1 by (auto simp: session_add_message_def add_message_def put_session_def Let_def)
  obtain session2 st2 intent where e: "extract_intent world user_message session1 st1 = (session2, st2, intent)"
    by (cases "extract_intent world user_message session1 st1") auto
  have e1: "sessions st2 session_id = Some session2" and e2: "messages session2 = messages session1"
    and e0: "sid session2 = session_id"
    using extract_intent_stored[of st1 session1 world user_message session2 st2 intent] a0 a1 e by auto
  have h2: "history st2 session_id = history st session_id @ [(''user'', PStr user_message)]"
    using e1 e2 a2 by (simp add: history_def)
  show ?thesis
  proof (cases "decide_action intent session2")
    case (Inl err)
    have "process_message world user_message session_id st = (st2, error_response err)"
      by (simp add: process_message_def g a e Inl)
    with run have "st' = st2" "rd = error_response err"
      by auto
    with h2 show ?thesis by (simp add: error_response_def)
  next
    case (Inr action)
    obtain st3 r where x: "execute_action world action intent user_message session2 st2 = (st3, r)"
      by (cases "execute_action world action intent user_message session2 st2")
    have x1: "sessions st3 = sessions st2"
      using sessions_execute_action[of world action intent user_message session2 st2] x by simp
    show ?thesis
    proof (cases r)
      case (Inl err)
      have "process_message world user_message session_id st = (st3, error_response err)"
        by (simp add: process_message_def g a e Inr x Inl)
      with run have "st' = st3" "rd = error_response err"
        by auto
      with h2 x1 show ?thesis by (simp add: error_response_def history_def)
    next
      case r: (Inr rd')
      have "process_message world user_message session_id st =
              (snd (session_add_message ''assistant'' (rd_response rd') session2 st3), rd')"
        by (simp add: process_message_def g a e Inr x r)
      with run have st': "st' = snd (session_add_message ''assistant'' (rd_response rd') session2 st3)"
        and rd: "rd = rd'"
        by auto
      have act: "rd_action rd' \<noteq> ''error''"
        using x r
        by (auto simp: execute_action_def execute_search_def execute_clarify_def execute_chat_def
              ACTION_SEARCH_def ACTION_CLARIFY_def ACTION_CHAT_def Let_def
              split: if_splits prod.splits sum.splits)
      have "history st' session_id =
              map (\<lambda>msg. (msg_role msg, msg_content msg)) (messages session2)
                @ [(''assistant'', rd_response rd')]"
        using st' e0
        by (simp add: session_add_message_def add_message_def put_session_def history_def Let_def)
      with e2 a2 act rd show ?thesis by simp
    qed
  qed
qed

text \<open>
  Claim C1 on the error path. The classifier answers a greeting with a \<open>null\<close>
  confidence, the comparison \<open>confidence < 0.6\<close> raises \<open>TypeError\<close>, and the handler of
  \<open>process_message\<close> returns the apology under the action \<open>error\<close>. The history of the
  session then holds the user message and no assistant turn: the apology is returned but
  not recorded.
\<close>

theorem process_message_error_path:
  "snd (process_message null_confidence_world ''Hello'' ''default'' initial_state) =
     \<lparr>rd_response = PStr
        ''I apologize, but I encountered an error processing your request. Please try again.'',
      rd_products = [], rd_action = ''error'', rd_intent = None, rd_error = Some TypeError\<rparr> \<and>
   history (fst (process_message null_confidence_world ''Hello'' ''default'' initial_state))
     ''default'' = [(''user'', PStr ''Hello'')]"
  by (simp add: process_message_def get_or_create_session_def initial_state_def new_session_def
        put_session_def session_add_message_def add_message_def extract_intent_def
        get_context_window_def call_llm_def log_event_def null_confidence_world_def stub_world_def
        null_confidence_intent_def get_none_def py_get_def decide_action_def py_less_float_def
        history_def error_response_def apology_def Let_def)

section \<open>Numbers\<close>

lemma round_half_even_near: "\<bar>x - of_int (round_half_even x)\<bar> \<le> 1 / 2"
  unfolding round_half_even_def Let_def by (auto; linarith)

lemma round4_near:
  "\<bar>r - of_int (round_half_even (r * 10000)) / 10000\<bar> \<le> 1 / 20000"
proof -
  have "\<bar>r * 10000 - of_int (round_half_even (r * 10000))\<bar> \<le> 1 / 2"
    by (rule round_half_even_near)
  then show ?thesis by (simp add: field_simps abs_le_iff)
qed

lemma bit_length_le: "m < 2 ^ k \<Longrightarrow> bit_length m \<le> k"
proof (induction k arbitrary: m)
  case 0
  then show ?case by (simp add: bit_length.simps)
next
  case (Suc k)
  show ?case
  proof (cases "m = 0")
    case True
    then show ?thesis by (simp add: bit_length.simps)
  next
    case False
    from Suc.prems have "m div 2 < 2 ^ k" by simp
    then have "bit_length (m div 2) \<le> k" by (rule Suc.IH)
    with False show ?thesis by (subst bit_length.simps) simp
  qed
qed

text \<open>An \<open>int\<close> below \<open>2^53\<close> is a double: \<open>float\<close> converts it exactly.\<close>

lemma round_to_double_small:
  assumes "\<bar>n\<bar> < 2 ^ 53"
  shows "round_to_double n = n"
proof -
  from assms have "nat \<bar>n\<bar> < 2 ^ 53"
    by (simp add: nat_less_iff)
  then have "bit_length (nat \<bar>n\<bar>) \<le> 53" by (rule bit_length_le)
  then have "bit_length (nat \<bar>n\<bar>) - 53 = 0" by simp
  then have "round_to_double n = sgn n * int (nat \<bar>n\<bar>)"
    by (simp add: round_to_double_def Let_def)
  also have "\<dots> = n" by (simp add: sgn_if)
  finally show ?thesis .
qed

lemma small_int_no_overflow: "\<bar>n\<bar> < 2 ^ 53 \<Longrightarrow> \<not> int_overflows n"
  by (simp add: int_overflows_def)

lemma format_f0_one: "format_f0 (Finite 1) = ''1''"
  by (simp add: format_f0_def round_half_even_def group3.simps dec_nat.simps digit_char_def)

section \<open>Product records\<close>

text \<open>The price string, by the kind of value that the metadata holds under \<open>price\<close>.\<close>

lemma format_price_table:
  assumes "\<not> price_overflows md"
  shows "format_price world md =
    Inr (case py_get md ''price'' (PStr ''N/A'') of
           PNone \<Rightarrow> ''N/A''
         | PBool b \<Rightarrow> (if b then currency_sign @ ''1'' else ''N/A'')
         | PInt n \<Rightarrow> (if n = 0 then ''N/A''
                       else currency_sign @ format_f0 (Finite (of_int (round_to_double n))))
         | PFloat r \<Rightarrow> (if r = 0 then ''N/A'' else currency_sign @ format_f0 (Finite r))
         | PStr s \<Rightarrow> (if s = [] \<or> s = ''N/A'' then ''N/A''
                       else (case str_to_float world s of
                               Some x \<Rightarrow> currency_sign @ format_f0 x
                             | None \<Rightarrow> s))
         | PList xs \<Rightarrow> (if xs = [] then ''N/A'' else repr_other world (PList xs))
         | PDict d \<Rightarrow> (if d = [] then ''N/A'' else repr_other world (PDict d)))"
proof -
  define pv where "pv = py_get md ''price'' (PStr ''N/A'')"
  have o: "\<And>n. pv = PInt n \<Longrightarrow> \<not> int_overflows n"
    using assms by (simp add: price_overflows_def pv_def)
  have "(let price_value = pv
         in if price_value \<noteq> PStr ''N/A'' \<and> truthy price_value
            then (case py_float (str_to_float world) price_value of
                    Inr x \<Rightarrow> Inr (currency_sign @ format_f0 x)
                  | Inl e \<Rightarrow>
                      (if e = ValueError \<or> e = TypeError
                       then Inr (py_str (repr_other world) price_value)
                       else Inl e))
            else Inr ''N/A'') =
    Inr (case pv of
           PNone \<Rightarrow> ''N/A''
         | PBool b \<Rightarrow> (if b then currency_sign @ ''1'' else ''N/A'')
         | PInt n \<Rightarrow> (if n = 0 then ''N/A''
                       else currency_sign @ format_f0 (Finite (of_int (round_to_double n))))
         | PFloat r \<Rightarrow> (if r = 0 then ''N/A'' else currency_sign @ format_f0 (Finite r))
         | PStr s \<Rightarrow> (if s = [] \<or> s = ''N/A'' then ''N/A''
                       else (case str_to_float world s of
                               Some x \<Rightarrow> currency_sign @ format_f0 x
                             | None \<Rightarrow> s))
         | PList xs \<Rightarrow> (if xs = [] then ''N/A'' else repr_other world (PList xs))
         | PDict d \<Rightarrow> (if d = [] then ''N/A'' else repr_other world (PDict d)))"
    using o by (cases pv) (auto simp: py_float_def format_f0_one split: option.splits)
  then show ?thesis
    unfolding format_price_def pv_def .
qed

lemma py_round4_table:
  assumes "is_number v"
  shows "py_round4 v =
    Inr (case v of
           PInt n \<Rightarrow> PInt n
         | PBool b \<Rightarrow> PInt (if b then 1 else 0)
         | PFloat r \<Rightarrow> PFloat (of_int (round_half_even (r * 10000)) / 10000)
         | _ \<Rightarrow> PNone)"
  using assms by (cases v) (simp_all add: py_round4_def is_number_def)

lemma formattable_cases:
  "formattable m \<Longrightarrow>
     \<exists>md. metadata m = PDict md \<and> is_number (score m) \<and> \<not> price_overflows md"
  by (cases "metadata m") (simp_all add: formattable_def)

lemma format_product_Inr:
  assumes "metadata m = PDict md" and "is_number (score m)" and "\<not> price_overflows md"
  shows "\<exists>price_formatted rounded.
           format_price world md = Inr price_formatted \<and>
           py_round4 (score m) = Inr rounded \<and>
           format_product world m =
             Inr [(''id'', match_id m),
                  (''product_id'', py_get md ''product_id'' (match_id m)),
                  (''name'', py_get md ''product_name'' (PStr ''Unknown'')),
                  (''price'', PStr price_formatted),
                  (''category'', py_get md ''category'' (PStr [])),
                  (''subcategory'', py_get md ''subcategory'' (PStr [])),
                  (''color'', py_get md ''color'' (PStr [])),
                  (''fabric'', py_get md ''fabric'' (PStr [])),
                  (''technique'', py_get md ''technique'' (PStr [])),
                  (''pattern'', py_get md ''pattern'' (PStr [])),
                  (''description'', py_get md ''description'' (PStr [])),
                  (''in_stock'', py_get md ''in_stock'' (PBool True)),
                  (''colors_available'', py_get md ''colors_available'' (PStr [])),
                  (''score'', rounded)]"
proof -
  from format_price_table [OF assms(3), of world]
  obtain p where p: "format_price world md = Inr p" by blast
  from py_round4_table [OF assms(2)]
  obtain r where r: "py_round4 (score m) = Inr r" by blast
  from p r assms(1) show ?thesis
    by (simp add: format_product_def)
qed

lemma format_products_nth:
  "format_products world ms = Inr products \<Longrightarrow>
     length products = length ms \<and>
     (\<forall>i < length ms. format_product world (ms ! i) = Inr (products ! i))"
proof (induction ms arbitrary: products)
  case Nil
  then show ?case by simp
next
  case (Cons m ms)
  from Cons.prems obtain p ps
    where p: "format_product world m = Inr p"
      and ps: "format_products world ms = Inr ps"
      and eq: "products = p # ps"
    by (auto split: sum.splits)
  from Cons.IH [OF ps]
  have l: "length ps = length ms"
    and n: "\<forall>i < length ms. format_product world (ms ! i) = Inr (ps ! i)"
    by simp_all
  show ?case
  proof (intro conjI allI impI)
    show "length products = length (m # ms)"
      using eq l by simp
  next
    fix i assume "i < length (m # ms)"
    then show "format_product world ((m # ms) ! i) = Inr (products ! i)"
      using p n eq by (cases i) simp_all
  qed
qed

lemma format_products_total:
  "\<forall>m \<in> set ms. formattable m \<Longrightarrow> \<exists>products. format_products world ms = Inr products"
proof (induction ms)
  case Nil
  then show ?case by simp
next
  case (Cons m ms)
  then obtain ps where ps: "format_products world ms = Inr ps" by auto
  from Cons.prems have "formattable m" by simp
  from formattable_cases [OF this]
  obtain md where "metadata m = PDict md" "is_number (score m)" "\<not> price_overflows md"
    by blast
  from format_product_Inr [OF this, of world]
  obtain p where "format_product world m = Inr p" by blast
  with ps show ?case by simp
qed

text \<open>
  Claim C9, as the code has it. For matches whose metadata is a dictionary, whose score
  is a number and whose price is not an \<open>int\<close> beyond the range of a double,
  \<open>_format_products\<close> returns one record per match, in order. Each record has exactly
  the fourteen documented keys. Its score is the score of the match rounded to four
  decimals: an \<open>int\<close> unchanged, a float as the multiple of 0.0001 nearest to it (at most
  0.00005 away). Its price is the string given by the kind of the metadata's price: the
  currency prefix and the value without decimals, digits grouped in threes, for a
  number or a text that denotes one; the text itself otherwise; \<open>N/A\<close> for an absent,
  empty or zero price. Every field present in the metadata is copied. An absent field is
  rendered by an explicit marker where the code has one (\<open>N/A\<close> for the price,
  \<open>Unknown\<close> for the name, the empty string for the eight text fields); an absent
  product id is replaced by the id of the match, and an absent stock flag by \<open>True\<close>.
\<close>

theorem format_products_records:
  assumes "\<forall>m \<in> set ms. formattable m"
  shows "\<exists>products. format_products world ms = Inr products
     \<and> length products = length ms
     \<and> (\<forall>i < length ms. \<exists>md.
           metadata (ms ! i) = PDict md
         \<and> map fst (products ! i) = documented_keys
         \<and> get_none (products ! i) ''id'' = match_id (ms ! i)
         \<and> get_none (products ! i) ''product_id'' = py_get md ''product_id'' (match_id (ms ! i))
         \<and> get_none (products ! i) ''name'' = py_get md ''product_name'' (PStr ''Unknown'')
         \<and> (\<forall>k \<in> set text_fields. get_none (products ! i) k = py_get md k (PStr []))
         \<and> get_none (products ! i) ''in_stock'' = py_get md ''in_stock'' (PBool True)
         \<and> get_none (products ! i) ''price'' =
             PStr (case py_get md ''price'' (PStr ''N/A'') of
                     PNone \<Rightarrow> ''N/A''
                   | PBool b \<Rightarrow> (if b then currency_sign @ ''1'' else ''N/A'')
                   | PInt n \<Rightarrow>
                       (if n = 0 then ''N/A''
                        else currency_sign @ format_f0 (Finite (of_int (round_to_double n))))
                   | PFloat r \<Rightarrow> (if r = 0 then ''N/A'' else currency_sign @ format_f0 (Finite r))
                   | PStr s \<Rightarrow>
                       (if s = [] \<or> s = ''N/A'' then ''N/A''
                        else (case str_to_float world s of
                                Some x \<Rightarrow> currency_sign @ format_f0 x
                              | None \<Rightarrow> s))
                   | PList xs \<Rightarrow> (if xs = [] then ''N/A'' else repr_other world (PList xs))
                   | PDict d \<Rightarrow> (if d = [] then ''N/A'' else repr_other world (PDict d)))
         \<and> get_none (products ! i) ''score'' =
             (case score (ms ! i) of
                PInt n \<Rightarrow> PInt n
              | PBool b \<Rightarrow> PInt (if b then 1 else 0)
              | PFloat r \<Rightarrow> PFloat (of_int (round_half_even (r * 10000)) / 10000)
              | _ \<Rightarrow> PNone)
         \<and> (\<forall>r. score (ms ! i) = PFloat r \<longrightarrow>
               \<bar>r - of_int (round_half_even (r * 10000)) / 10000\<bar> \<le> 1 / 20000))"
proof -
  from format_products_total [OF assms, of world]
  obtain products where fp: "format_products world ms = Inr products" by blast
  from format_products_nth [OF fp]
  have len: "length products = length ms"
    and nth: "\<forall>i < length ms. format_product world (ms ! i) = Inr (products ! i)"
    by simp_all
  have each: "\<exists>md.
           metadata (ms ! i) = PDict md
         \<and> map fst (products ! i) = documented_keys
         \<and> get_none (products ! i) ''id'' = match_id (ms ! i)
         \<and> get_none (products ! i) ''product_id'' = py_get md ''product_id'' (match_id (ms ! i))
         \<and> get_none (products ! i) ''name'' = py_get md ''product_name'' (PStr ''Unknown'')
         \<and> (\<forall>k \<in> set text_fields. get_none (products ! i) k = py_get md k (PStr []))
         \<and> get_none (products ! i) ''in_stock'' = py_get md ''in_stock'' (PBool True)
         \<and> get_none (products ! i) ''price'' =
             PStr (case py_get md ''price'' (PStr ''N/A'') of
                     PNone \<Rightarrow> ''N/A''
                   | PBool b \<Rightarrow> (if b then currency_sign @ ''1'' else ''N/A'')
                   | PInt n \<Rightarrow>
                       (if n = 0 then ''N/A''
                        else currency_sign @ format_f0 (Finite (of_int (round_to_double n))))
                   | PFloat r \<Rightarrow> (if r = 0 then ''N/A'' else currency_sign @ format_f0 (Finite r))
                   | PStr s \<Rightarrow>
                       (if s = [] \<or> s = ''N/A'' then ''N/A''
                        else (case str_to_float world s of
                                Some x \<Rightarrow> currency_sign @ format_f0 x
                              | None \<Rightarrow> s))
                   | PList xs \<Rightarrow> (if xs = [] then ''N/A'' else repr_other world (PList xs))
                   | PDict d \<Rightarrow> (if d = [] then ''N/A'' else repr_other world (PDict d)))
         \<and> get_none (products ! i) ''score'' =
             (case score (ms ! i) of
                PInt n \<Rightarrow> PInt n
              | PBool b \<Rightarrow> PInt (if b then 1 else 0)
              | PFloat r \<Rightarrow> PFloat (of_int (round_half_even (r * 10000)) / 10000)
              | _ \<Rightarrow> PNone)
         \<and> (\<forall>r. score (ms ! i) = PFloat r \<longrightarrow>
               \<bar>r - of_int (round_half_even (r * 10000)) / 10000\<bar> \<le> 1 / 20000)"
    if i: "i < length ms" for i
  proof -
    let ?m = "ms ! i"
    from i assms have "formattable ?m" by simp
    from formattable_cases [OF this]
    obtain md where md: "metadata ?m = PDict md" and num: "is_number (score ?m)"
      and ov: "\<not> price_overflows md"
      by blast
    from format_product_Inr [OF md num ov, of world]
    obtain pf rd where pf: "format_price world md = Inr pf"
      and rd: "py_round4 (score ?m) = Inr rd"
      and rec: "format_product world ?m =
             Inr [(''id'', match_id ?m),
                  (''product_id'', py_get md ''product_id'' (match_id ?m)),
                  (''name'', py_get md ''product_name'' (PStr ''Unknown'')),
                  (''price'', PStr pf),
                  (''category'', py_get md ''category'' (PStr [])),
                  (''subcategory'', py_get md ''subcategory'' (PStr [])),
                  (''color'', py_get md ''color'' (PStr [])),
                  (''fabric'', py_get md ''fabric'' (PStr [])),
                  (''technique'', py_get md ''technique'' (PStr [])),
                  (''pattern'', py_get md ''pattern'' (PStr [])),
                  (''description'', py_get md ''description'' (PStr [])),
                  (''in_stock'', py_get md ''in_stock'' (PBool True)),
                  (''colors_available'', py_get md ''colors_available'' (PStr [])),
                  (''score'', rd)]"
      by blast
    let ?p = "[(''id'', match_id ?m),
                  (''product_id'', py_get md ''product_id'' (match_id ?m)),
                  (''name'', py_get md ''product_name'' (PStr ''Unknown'')),
                  (''price'', PStr pf),
                  (''category'', py_get md ''category'' (PStr [])),
                  (''subcategory'', py_get md ''subcategory'' (PStr [])),
                  (''color'', py_get md ''color'' (PStr [])),
                  (''fabric'', py_get md ''fabric'' (PStr [])),
                  (''technique'', py_get md ''technique'' (PStr [])),
                  (''pattern'', py_get md ''pattern'' (PStr [])),
                  (''description'', py_get md ''description'' (PStr [])),
                  (''in_stock'', py_get md ''in_stock'' (PBool True)),
                  (''colors_available'', py_get md ''colors_available'' (PStr [])),
                  (''score'', rd)]"
    from nth i rec have pi: "products ! i = ?p" by simp
    have get: "get_none ?p k = (case map_of ?p k of None \<Rightarrow> PNone | Some v \<Rightarrow> v)" for k
      by (simp only: get_none_def py_get_def)
    have c1: "map fst ?p = documented_keys"
      by (simp add: documented_keys_def)
    have c2: "get_none ?p ''id'' = match_id ?m" by (simp add: get)
    have c3: "get_none ?p ''product_id'' = py_get md ''product_id'' (match_id ?m)"
      by (simp add: get)
    have c4: "get_none ?p ''name'' = py_get md ''product_name'' (PStr ''Unknown'')"
      by (simp add: get)
    have c5: "\<forall>k \<in> set text_fields. get_none ?p k = py_get md k (PStr [])"
      by (simp add: text_fields_def get)
    have c6: "get_none ?p ''in_stock'' = py_get md ''in_stock'' (PBool True)"
      by (simp add: get)
    have "get_none ?p ''price'' = PStr pf" by (simp add: get)
    with pf format_price_table [OF ov, of world]
    have c7: "get_none ?p ''price'' =
             PStr (case py_get md ''price'' (PStr ''N/A'') of
                     PNone \<Rightarrow> ''N/A''
                   | PBool b \<Rightarrow> (if b then currency_sign @ ''1'' else ''N/A'')
                   | PInt n \<Rightarrow>
                       (if n = 0 then ''N/A''
                        else currency_sign @ format_f0 (Finite (of_int (round_to_double n))))
                   | PFloat r \<Rightarrow> (if r = 0 then ''N/A'' else currency_sign @ format_f0 (Finite r))
                   | PStr s \<Rightarrow>
                       (if s = [] \<or> s = ''N/A'' then ''N/A''
                        else (case str_to_float world s of
                                Some x \<Rightarrow> currency_sign @ format_f0 x
                              | None \<Rightarrow> s))
                   | PList xs \<Rightarrow> (if xs = [] then ''N/A'' else repr_other world (PList xs))
                   | PDict d \<Rightarrow> (if d = [] then ''N/A'' else repr_other world (PDict d)))"
      by (simp only: sum.inject)
    have "get_none ?p ''score'' = rd" by (simp add: get)
    with rd py_round4_table [OF num]
    have c8: "get_none ?p ''score'' =
             (case score ?m of
                PInt n \<Rightarrow> PInt n
              | PBool b \<Rightarrow> PInt (if b then 1 else 0)
              | PFloat r \<Rightarrow> PFloat (of_int (round_half_even (r * 10000)) / 10000)
              | _ \<Rightarrow> PNone)"
      by (simp only: sum.inject)
    have c9: "\<forall>r. score ?m = PFloat r \<longrightarrow>
               \<bar>r - of_int (round_half_even (r * 10000)) / 10000\<bar> \<le> 1 / 20000"
      using round4_near by blast
    show ?thesis
      unfolding pi
      by (rule exI [of _ md]) (intro conjI md c1 c2 c3 c4 c5 c6 c7 c8 c9)
  qed
  show ?thesis
    by (rule exI [of _ products]) (intro conjI fp len allI impI each)
qed
text \<open>
  The theorem at two hits: one with name, price 2850 and category and a score of
  0.87656, one without metadata.
\<close>

theorem format_products_records_witness:
  "formattable sample_match \<and> formattable bare_match \<and>
   (\<exists>products. format_products stub_world [sample_match, bare_match] = Inr products
      \<and> length products = 2
      \<and> map fst (products ! 0) = documented_keys
      \<and> get_none (products ! 0) ''id'' = PStr ''p1''
      \<and> get_none (products ! 0) ''product_id'' = PStr ''p1''
      \<and> get_none (products ! 0) ''name'' = PStr ''Indigo Ajrakh Cotton Saree''
      \<and> get_none (products ! 0) ''category'' = PStr ''Saree''
      \<and> get_none (products ! 0) ''color'' = PStr []
      \<and> get_none (products ! 0) ''in_stock'' = PBool True
      \<and> get_none (products ! 0) ''price'' = PStr (currency_sign @ ''2,850'')
      \<and> get_none (products ! 0) ''score'' = PFloat (8766 / 10000)
      \<and> get_none (products ! 1) ''name'' = PStr ''Unknown''
      \<and> get_none (products ! 1) ''price'' = PStr ''N/A'')"
proof -
  have f: "\<forall>m \<in> set [sample_match, bare_match]. formattable m"
    by (simp add: formattable_def sample_match_def bare_match_def is_number_def
          price_overflows_def sample_metadata_def py_get_def int_overflows_def)
  have rt: "round_to_double 2850 = 2850"
    by (rule round_to_double_small) simp
  have ff: "format_f0 (Finite 2850) = ''2,850''"
    by (simp add: format_f0_def round_half_even_def group3.simps dec_nat.simps pad3_def
          digit_char_def)
  have sc: "round_half_even (43828 / 5) = 8766"
    by (simp add: round_half_even_def)
  have tf: "''category'' \<in> set text_fields" "''color'' \<in> set text_fields"
    by (simp_all add: text_fields_def)
  from format_products_records [OF f, of stub_world]
  obtain products where fp: "format_products stub_world [sample_match, bare_match] = Inr products"
    and len: "length products = length [sample_match, bare_match]"
    and all: "\<forall>i < length [sample_match, bare_match]. \<exists>md.
           metadata ([sample_match, bare_match] ! i) = PDict md
         \<and> map fst (products ! i) = documented_keys
         \<and> get_none (products ! i) ''id'' = match_id ([sample_match, bare_match] ! i)
         \<and> get_none (products ! i) ''product_id'' =
             py_get md ''product_id'' (match_id ([sample_match, bare_match] ! i))
         \<and> get_none (products ! i) ''name'' = py_get md ''product_name'' (PStr ''Unknown'')
         \<and> (\<forall>k \<in> set text_fields. get_none (products ! i) k = py_get md k (PStr []))
         \<and> get_none (products ! i) ''in_stock'' = py_get md ''in_stock'' (PBool True)
         \<and> get_none (products ! i) ''price'' =
             PStr (case py_get md ''price'' (PStr ''N/A'') of
                     PNone \<Rightarrow> ''N/A''
                   | PBool b \<Rightarrow> (if b then currency_sign @ ''1'' else ''N/A'')
                   | PInt n \<Rightarrow>
                       (if n = 0 then ''N/A''
                        else currency_sign @ format_f0 (Finite (of_int (round_to_double n))))
                   | PFloat r \<Rightarrow> (if r = 0 then ''N/A'' else currency_sign @ format_f0 (Finite r))
                   | PStr s \<Rightarrow>
                       (if s = [] \<or> s = ''N/A'' then ''N/A''
                        else (case str_to_float stub_world s of
                                Some x \<Rightarrow> currency_sign @ format_f0 x
                              | None \<Rightarrow> s))
                   | PList xs \<Rightarrow> (if xs = [] then ''N/A'' else repr_other stub_world (PList xs))
                   | PDict d \<Rightarrow> (if d = [] then ''N/A'' else repr_other stub_world (PDict d)))
         \<and> get_none (products ! i) ''score'' =
             (case score ([sample_match, bare_match] ! i) of
                PInt n \<Rightarrow> PInt n
              | PBool b \<Rightarrow> PInt (if b then 1 else 0)
              | PFloat r \<Rightarrow> PFloat (of_int (round_half_even (r * 10000)) / 10000)
              | _ \<Rightarrow> PNone)
         \<and> (\<forall>r. score ([sample_match, bare_match] ! i) = PFloat r \<longrightarrow>
               \<bar>r - of_int (round_half_even (r * 10000)) / 10000\<bar> \<le> 1 / 20000)"
    by blast
  have i0: "0 < length [sample_match, bare_match]" and i1: "1 < length [sample_match, bare_match]"
    by simp_all
  from all [rule_format, OF i0]
  obtain md0 where m0: "metadata ([sample_match, bare_match] ! 0) = PDict md0"
    and k0: "map fst (products ! 0) = documented_keys"
    and id0: "get_none (products ! 0) ''id'' = match_id ([sample_match, bare_match] ! 0)"
    and pid0: "get_none (products ! 0) ''product_id'' =
             py_get md0 ''product_id'' (match_id ([sample_match, bare_match] ! 0))"
    and nm0: "get_none (products ! 0) ''name'' = py_get md0 ''product_name'' (PStr ''Unknown'')"
    and tf0: "\<forall>k \<in> set text_fields. get_none (products ! 0) k = py_get md0 k (PStr [])"
    and st0: "get_none (products ! 0) ''in_stock'' = py_get md0 ''in_stock'' (PBool True)"
    and pr0: "get_none (products ! 0) ''price'' =
             PStr (case py_get md0 ''price'' (PStr ''N/A'') of
                     PNone \<Rightarrow> ''N/A''
                   | PBool b \<Rightarrow> (if b then currency_sign @ ''1'' else ''N/A'')
                   | PInt n \<Rightarrow>
                       (if n = 0 then ''N/A''
                        else currency_sign @ format_f0 (Finite (of_int (round_to_double n))))
                   | PFloat r \<Rightarrow> (if r = 0 then ''N/A'' else currency_sign @ format_f0 (Finite r))
                   | PStr s \<Rightarrow>
                       (if s = [] \<or> s = ''N/A'' then ''N/A''
                        else (case str_to_float stub_world s of
                                Some x \<Rightarrow> currency_sign @ format_f0 x
                              | None \<Rightarrow> s))
                   | PList xs \<Rightarrow> (if xs = [] then ''N/A'' else repr_other stub_world (PList xs))
                   | PDict d \<Rightarrow> (if d = [] then ''N/A'' else repr_other stub_world (PDict d)))"
    and sc0: "get_none (products ! 0) ''score'' =
             (case score ([sample_match, bare_match] ! 0) of
                PInt n \<Rightarrow> PInt n
              | PBool b \<Rightarrow> PInt (if b then 1 else 0)
              | PFloat r \<Rightarrow> PFloat (of_int (round_half_even (r * 10000)) / 10000)
              | _ \<Rightarrow> PNone)"
    by (elim exE conjE)
  from m0 have e0: "md0 = sample_metadata"
    by (simp add: sample_match_def)
  have g0: "py_get sample_metadata ''price'' (PStr ''N/A'') = PInt 2850"
    by (simp add: sample_metadata_def py_get_def)
  have first:
    "map fst (products ! 0) = documented_keys
      \<and> get_none (products ! 0) ''id'' = PStr ''p1''
      \<and> get_none (products ! 0) ''product_id'' = PStr ''p1''
      \<and> get_none (products ! 0) ''name'' = PStr ''Indigo Ajrakh Cotton Saree''
      \<and> get_none (products ! 0) ''category'' = PStr ''Saree''
      \<and> get_none (products ! 0) ''color'' = PStr []
      \<and> get_none (products ! 0) ''in_stock'' = PBool True
      \<and> get_none (products ! 0) ''price'' = PStr (currency_sign @ ''2,850'')
      \<and> get_none (products ! 0) ''score'' = PFloat (8766 / 10000)"
  proof (intro conjI)
    show "map fst (products ! 0) = documented_keys" by (rule k0)
    show "get_none (products ! 0) ''id'' = PStr ''p1''"
      using id0 by (simp add: sample_match_def)
    show "get_none (products ! 0) ''product_id'' = PStr ''p1''"
      using pid0 unfolding e0 by (simp add: sample_match_def sample_metadata_def py_get_def)
    show "get_none (products ! 0) ''name'' = PStr ''Indigo Ajrakh Cotton Saree''"
      using nm0 unfolding e0 by (simp add: sample_metadata_def py_get_def)
    show "get_none (products ! 0) ''category'' = PStr ''Saree''"
      using tf0 [rule_format, OF tf(1)] unfolding e0 by (simp add: sample_metadata_def py_get_def)
    show "get_none (products ! 0) ''color'' = PStr []"
      using tf0 [rule_format, OF tf(2)] unfolding e0 by (simp add: sample_metadata_def py_get_def)
    show "get_none (products ! 0) ''in_stock'' = PBool True"
      using st0 unfolding e0 by (simp add: sample_metadata_def py_get_def)
    show "get_none (products ! 0) ''price'' = PStr (currency_sign @ ''2,850'')"
      using pr0 unfolding e0 g0 by (simp add: rt ff)
    show "get_none (products ! 0) ''score'' = PFloat (8766 / 10000)"
      using sc0 by (simp add: sample_match_def sc)
  qed
  from all [rule_format, OF i1]
  obtain md1 where m1: "metadata ([sample_match, bare_match] ! 1) = PDict md1"
    and nm1: "get_none (products ! 1) ''name'' = py_get md1 ''product_name'' (PStr ''Unknown'')"
    and pr1: "get_none (products ! 1) ''price'' =
             PStr (case py_get md1 ''price'' (PStr ''N/A'') of
                     PNone \<Rightarrow> ''N/A''
                   | PBool b \<Rightarrow> (if b then currency_sign @ ''1'' else ''N/A'')
                   | PInt n \<Rightarrow>
                       (if n = 0 then ''N/A''
                        else currency_sign @ format_f0 (Finite (of_int (round_to_double n))))
                   | PFloat r \<Rightarrow> (if r = 0 then ''N/A'' else currency_sign @ format_f0 (Finite r))
                   | PStr s \<Rightarrow>
                       (if s = [] \<or> s = ''N/A'' then ''N/A''
                        else (case str_to_float stub_world s of
                                Some x \<Rightarrow> currency_sign @ format_f0 x
                              | None \<Rightarrow> s))
                   | PList xs \<Rightarrow> (if xs = [] then ''N/A'' else repr_other stub_world (PList xs))
                   | PDict d \<Rightarrow> (if d = [] then ''N/A'' else repr_other stub_world (PDict d)))"
    by (elim exE conjE)
  from m1 have e1: "md1 = []"
    by (simp add: bare_match_def)
  have second:
    "get_none (products ! 1) ''name'' = PStr ''Unknown''
      \<and> get_none (products ! 1) ''price'' = PStr ''N/A''"
    using nm1 pr1 unfolding e1 by (simp add: py_get_def)
  from f have f2: "formattable sample_match" "formattable bare_match" by simp_all
  from len have "length products = 2" by simp
  with f2 fp first second show ?thesis by blast
qed

text \<open>
  Claim C9 as the specification states it fails at a hit without metadata: the stock
  flag of the record is \<open>True\<close> and its product id is the id of the match, neither of
  which is a marker of an empty or unknown field.
\<close>

theorem format_product_counterexample:
  "map_of ([] :: dict) ''in_stock'' = None \<and>
   format_product stub_world bare_match =
     Inr [(''id'', PStr ''p1''), (''product_id'', PStr ''p1''), (''name'', PStr ''Unknown''),
          (''price'', PStr ''N/A''), (''category'', PStr []), (''subcategory'', PStr []),
          (''color'', PStr []), (''fabric'', PStr []), (''technique'', PStr []),
          (''pattern'', PStr []), (''description'', PStr []), (''in_stock'', PBool True),
          (''colors_available'', PStr []), (''score'', PFloat (1 / 2))] \<and>
   \<not> empty_marker (PBool True) \<and> \<not> empty_marker (PStr ''p1'')"
  by (simp add: format_product_def bare_match_def py_round4_def round_half_even_def
        format_price_def py_get_def empty_marker_def)

text \<open>
  A price that is an \<open>int\<close> beyond the range of a double is outside the theorem: there
  \<open>float\<close> raises \<open>OverflowError\<close>, which the handler of the price does not catch.
\<close>

lemma format_products_overflow:
  "\<not> formattable huge_price_match \<and>
   format_products stub_world [huge_price_match] = Inl OverflowError"
  by (simp add: formattable_def huge_price_match_def price_overflows_def py_get_def
        int_overflows_def format_product_def format_price_def py_float_def)

section \<open>The stock label\<close>

lemma sublist_py_join: "x \<in> set xs \<Longrightarrow> sublist x (py_join sep xs)"
proof (induction sep xs rule: py_join.induct)
  case (3 sep x' y ys)
  show ?case
  proof (cases "x = x'")
    case True
    then show ?thesis by simp
  next
    case False
    with 3 have "sublist x (py_join sep (y # ys))" by simp
    then obtain ps ss where "py_join sep (y # ys) = ps @ x @ ss" by (auto simp: sublist_def)
    then have "py_join sep (x' # y # ys) = (x' @ sep @ ps) @ x @ ss" by simp
    then show ?thesis unfolding sublist_def by blast
  qed
qed simp_all

lemma product_summaries_nth:
  "i < 5 \<Longrightarrow> i < length products \<Longrightarrow>
     product_summary repr i (products ! i) \<in> set (product_summaries repr products)"
proof -
  assume a: "i < 5" "i < length products"
  then have "(i, products ! i) \<in> set (List.enumerate 0 (take 5 products))"
    by (auto simp: in_set_enumerate_eq)
  then have "(\<lambda>(i, product). product_summary repr i product) (i, products ! i)
               \<in> set (product_summaries repr products)"
    unfolding product_summaries_def by (simp only: set_map image_eqI)
  then show ?thesis by simp
qed

lemma summary_in_prompt:
  assumes "i < 5" and "i < length products"
  shows "sublist (product_summary repr i (products ! i)) (user_prompt repr intent attributes products)"
proof -
  from assms have ne: "products \<noteq> []" by auto
  let ?j = "py_join ''\<newline>'' (product_summaries repr products)"
  let ?a = "''User searched for: '' @ query_description repr intent attributes @
            ''\<newline>Found '' @ dec_nat (length products) @ '' products from our Pinecone database.'' @
            ''\<newline>\<newline>RETRIEVED PRODUCTS FROM DATABASE:\<newline>''"
  let ?b = "''\<newline>\<newline>Generate a warm response following the format rules. List 2-4 best matches (prioritize in-stock items).'' @
            ''\<newline>Use ONLY the exact data provided above. Do not invent details.''"
  have "sublist (product_summary repr i (products ! i)) ?j"
    using assms by (intro sublist_py_join product_summaries_nth)
  then obtain ps ss where j: "?j = ps @ product_summary repr i (products ! i) @ ss"
    by (auto simp: sublist_def)
  have "user_prompt repr intent attributes products = ?a @ ?j @ ?b"
    using ne by (simp add: user_prompt_def)
  also have "\<dots> = (?a @ ps) @ product_summary repr i (products ! i) @ (ss @ ?b)"
    by (simp only: j append_assoc)
  finally show ?thesis unfolding sublist_def by blast
qed

lemma summary_stock_line:
  assumes "in_stock_status product = ''In Stock''"
  shows "sublist ''\<newline>- Stock: In Stock\<newline>'' (product_summary repr i product)"
proof -
  let ?a = "''\<newline>Product '' @ dec_nat (i + 1) @ '':'' @
     ''\<newline>- Name: '' @ py_str repr (py_get product ''name'' (PStr ''Unknown'')) @
     ''\<newline>- Category: '' @ py_str repr (py_get product ''category'' (PStr [])) @
        '' / '' @ py_str repr (py_get product ''subcategory'' (PStr [])) @
     ''\<newline>- Fabric: '' @ py_str repr (py_get product ''fabric'' (PStr [])) @
     ''\<newline>- Technique: '' @ py_str repr (py_get product ''technique'' (PStr [])) @
     ''\<newline>- Color: '' @ py_str repr (py_get product ''color'' (PStr [])) @
     ''\<newline>- Pattern: '' @ py_str repr (py_get product ''pattern'' (PStr [])) @
     ''\<newline>- Price: '' @ py_str repr (py_get product ''price'' (PStr ''N/A''))"
  let ?b = "''- Description: '' @ py_str repr (py_get product ''description'' (PStr [])) @
     ''\<newline>''"
  have "product_summary repr i product = ?a @ ''\<newline>- Stock: In Stock\<newline>'' @ ?b"
    using assms by (simp add: product_summary_def)
  then show ?thesis unfolding sublist_def by blast
qed

text \<open>
  The prompt is made from the first five products and from the number of products: two
  result lists of the same length that agree on their first five give the same prompt.
\<close>

lemma user_prompt_first_five:
  assumes "length others = length products" and "take 5 others = take 5 products"
  shows "user_prompt repr intent attributes others = user_prompt repr intent attributes products"
proof -
  from assms(1) have "others = [] \<longleftrightarrow> products = []" by auto
  with assms show ?thesis
    by (simp add: user_prompt_def product_summaries_def)
qed

lemma generate_search_response_trace:
  "py_get intent ''attributes'' (PDict []) = PDict attributes \<Longrightarrow>
     trace (fst (generate_search_response world intent products session st)) =
       trace st @ [LLMEvent (SearchCall (user_prompt (repr_other world) intent attributes products))]"
  by (simp add: generate_search_response_def call_llm_def log_event_def split: sum.splits)

lemma format_product_in_stock:
  "format_product world m = Inr product \<Longrightarrow> metadata m = PDict md \<Longrightarrow>
     map_of md ''in_stock'' = None \<Longrightarrow> py_get product ''in_stock'' d = PBool True"
  by (auto simp: format_product_def py_get_def split: sum.splits)

text \<open>
  Claim C10, as the code has it. For every match of a result list whose metadata has no
  \<open>in_stock\<close> field, the product record that \<open>_format_products\<close> makes of it sets
  \<open>in_stock\<close> to \<open>True\<close>, and its summary has the line \<open>- Stock: In Stock\<close>. When the
  match is among the first five, \<open>_generate_search_response\<close> sends the generation
  collaborator a prompt that contains this summary. The prompt is made from the first
  five products and the number of products only, so a later match is not labelled in it
  at all.
\<close>

theorem missing_in_stock_presented_in_stock:
  assumes "format_products world ms = Inr products"
    and "i < length ms"
    and "metadata (ms ! i) = PDict md"
    and "map_of md ''in_stock'' = None"
  shows "i < length products
     \<and> get_none (products ! i) ''in_stock'' = PBool True
     \<and> in_stock_status (products ! i) = ''In Stock''
     \<and> sublist ''\<newline>- Stock: In Stock\<newline>''
          (product_summary (repr_other world) i (products ! i))
     \<and> (\<forall>intent attributes session st.
          i < 5 \<and> py_get intent ''attributes'' (PDict []) = PDict attributes \<longrightarrow>
          trace (fst (generate_search_response world intent products session st)) =
            trace st @
              [LLMEvent (SearchCall (user_prompt (repr_other world) intent attributes products))]
          \<and> sublist (product_summary (repr_other world) i (products ! i))
               (user_prompt (repr_other world) intent attributes products))
     \<and> (\<forall>intent attributes others.
          length others = length products \<and> take 5 others = take 5 products \<longrightarrow>
          user_prompt (repr_other world) intent attributes others =
            user_prompt (repr_other world) intent attributes products)"
proof -
  from format_products_nth [OF assms(1)] assms(2)
  have len: "length products = length ms"
    and fp: "format_product world (ms ! i) = Inr (products ! i)"
    by simp_all
  from len assms(2) have il: "i < length products" by simp
  from fp assms(3,4) have g: "py_get (products ! i) ''in_stock'' d = PBool True" for d
    by (rule format_product_in_stock)
  then have gs: "get_none (products ! i) ''in_stock'' = PBool True"
    by (simp add: get_none_def)
  from g have s: "in_stock_status (products ! i) = ''In Stock''"
    by (simp add: in_stock_status_def)
  from s have line: "sublist ''\<newline>- Stock: In Stock\<newline>''
          (product_summary (repr_other world) i (products ! i))"
    by (rule summary_stock_line)
  have prompt: "\<forall>intent attributes session st.
          i < 5 \<and> py_get intent ''attributes'' (PDict []) = PDict attributes \<longrightarrow>
          trace (fst (generate_search_response world intent products session st)) =
            trace st @
              [LLMEvent (SearchCall (user_prompt (repr_other world) intent attributes products))]
          \<and> sublist (product_summary (repr_other world) i (products ! i))
               (user_prompt (repr_other world) intent attributes products)"
    using il generate_search_response_trace summary_in_prompt by blast
  have five: "\<forall>intent attributes others.
          length others = length products \<and> take 5 others = take 5 products \<longrightarrow>
          user_prompt (repr_other world) intent attributes others =
            user_prompt (repr_other world) intent attributes products"
    using user_prompt_first_five by blast
  from il gs s line prompt five show ?thesis by blast
qed

text \<open>
  The theorem at the first of six hits without metadata: its record is in stock, its
  summary is in the prompt that the generation collaborator receives, and the prompt
  stays the same when the sixth product is replaced by one that is out of stock.
\<close>

theorem missing_in_stock_presented_in_stock_witness:
  "format_products stub_world
      [bare_match, bare_match, bare_match, bare_match, bare_match, bare_match] =
     Inr [bare_product, bare_product, bare_product, bare_product, bare_product, bare_product] \<and>
   metadata bare_match = PDict [] \<and>
   map_of ([] :: dict) ''in_stock'' = None \<and>
   get_none bare_product ''in_stock'' = PBool True \<and>
   in_stock_status bare_product = ''In Stock'' \<and>
   sublist ''\<newline>- Stock: In Stock\<newline>'' (product_summary (repr_other stub_world) 0 bare_product) \<and>
   py_get [] ''attributes'' (PDict []) = PDict [] \<and>
   trace (fst (generate_search_response stub_world []
            [bare_product, bare_product, bare_product, bare_product, bare_product, bare_product]
            sample_session initial_state)) =
     [LLMEvent (SearchCall (user_prompt (repr_other stub_world) [] []
        [bare_product, bare_product, bare_product, bare_product, bare_product, bare_product]))] \<and>
   sublist (product_summary (repr_other stub_world) 0 bare_product)
     (user_prompt (repr_other stub_world) [] []
        [bare_product, bare_product, bare_product, bare_product, bare_product, bare_product]) \<and>
   user_prompt (repr_other stub_world) [] []
       [bare_product, bare_product, bare_product, bare_product, bare_product, sold_out_product] =
     user_prompt (repr_other stub_world) [] []
       [bare_product, bare_product, bare_product, bare_product, bare_product, bare_product]"
proof -
  let ?ms = "[bare_match, bare_match, bare_match, bare_match, bare_match, bare_match]"
  let ?ps = "[bare_product, bare_product, bare_product, bare_product, bare_product, bare_product]"
  let ?qs = "[bare_product, bare_product, bare_product, bare_product, bare_product, sold_out_product]"
  have one: "format_product stub_world bare_match = Inr bare_product"
    by (simp add: format_product_def bare_match_def py_round4_def round_half_even_def
          format_price_def py_get_def bare_product_def)
  have f: "format_products stub_world ?ms = Inr ?ps"
    by (simp add: one)
  have i: "0 < length ?ms" by simp
  have m: "metadata (?ms ! 0) = PDict []"
    by (simp add: bare_match_def)
  have n: "map_of ([] :: dict) ''in_stock'' = None"
    by simp
  have a: "py_get [] ''attributes'' (PDict []) = PDict []"
    by (simp add: py_get_def)
  have q: "length ?qs = length ?ps \<and> take 5 ?qs = take 5 ?ps"
    by simp
  have t: "trace initial_state = []"
    by (simp add: initial_state_def)
  from missing_in_stock_presented_in_stock [OF f i m n] a q
  have "get_none (?ps ! 0) ''in_stock'' = PBool True
     \<and> in_stock_status (?ps ! 0) = ''In Stock''
     \<and> sublist ''\<newline>- Stock: In Stock\<newline>''
          (product_summary (repr_other stub_world) 0 (?ps ! 0))
     \<and> trace (fst (generate_search_response stub_world [] ?ps sample_session initial_state)) =
          trace initial_state @
            [LLMEvent (SearchCall (user_prompt (repr_other stub_world) [] [] ?ps))]
     \<and> sublist (product_summary (repr_other stub_world) 0 (?ps ! 0))
          (user_prompt (repr_other stub_world) [] [] ?ps)
     \<and> user_prompt (repr_other stub_world) [] [] ?qs =
          user_prompt (repr_other stub_world) [] [] ?ps"
    by (metis zero_less_numeral)
  with f m n a show ?thesis
    unfolding t by simp
qed

text \<open>
  Claim C10 as the specification states it fails at the sixth of six hits without
  metadata. Its record is in stock, but the prompt has five summaries and none of the
  sixth product: the prompt is the same as the one for a sixth product that is out of
  stock.
\<close>

theorem prompt_sixth_product_counterexample:
  "metadata bare_match = PDict [] \<and>
   format_products stub_world
      [bare_match, bare_match, bare_match, bare_match, bare_match, bare_match] =
     Inr [bare_product, bare_product, bare_product, bare_product, bare_product, bare_product] \<and>
   get_none bare_product ''in_stock'' = PBool True \<and>
   length (product_summaries (repr_other stub_world)
      [bare_product, bare_product, bare_product, bare_product, bare_product, bare_product]) = 5 \<and>
   in_stock_status sold_out_product = ''Out of Stock'' \<and>
   user_prompt (repr_other stub_world) [] []
       [bare_product, bare_product, bare_product, bare_product, bare_product, bare_product] =
     user_prompt (repr_other stub_world) [] []
       [bare_product, bare_product, bare_product, bare_product, bare_product, sold_out_product]"
proof -
  have one: "format_product stub_world bare_match = Inr bare_product"
    by (simp add: format_product_def bare_match_def py_round4_def round_half_even_def
          format_price_def py_get_def bare_product_def)
  have "metadata bare_match = PDict []"
    by (simp add: bare_match_def)
  moreover have "format_products stub_world
      [bare_match, bare_match, bare_match, bare_match, bare_match, bare_match] =
     Inr [bare_product, bare_product, bare_product, bare_product, bare_product, bare_product]"
    by (simp add: one)
  moreover have "get_none bare_product ''in_stock'' = PBool True"
    by (simp add: bare_product_def get_none_def py_get_def)
  moreover have "length (product_summaries (repr_other stub_world)
      [bare_product, bare_product, bare_product, bare_product, bare_product, bare_product]) = 5"
    by (simp add: product_summaries_def)
  moreover have "in_stock_status sold_out_product = ''Out of Stock''"
    by (simp add: in_stock_status_def sold_out_product_def bare_product_def py_get_def)
  moreover have "user_prompt (repr_other stub_world) [] []
       [bare_product, bare_product, bare_product, bare_product, bare_product, bare_product] =
     user_prompt (repr_other stub_world) [] []
       [bare_product, bare_product, bare_product, bare_product, bare_product, sold_out_product]"
    by (rule user_prompt_first_five) simp_all
  ultimately show ?thesis by blast
qed
end
